theory Spec2Isabelle
  imports Complex_Main
begin

section \<open>Conventions of the embedding\<close>

text \<open>
  The Python sources \<^verbatim>\<open>arbitrage_executor.py\<close> and \<^verbatim>\<open>orderbook_monitor.py\<close> are embedded
  function by function. Python floats are read as real numbers: sums, quotients and
  comparisons are those of the reals, and rounding, infinities and NaN are left out. A
  float division by zero raises \<^verbatim>\<open>ZeroDivisionError\<close> and is a branch of the model. Mutation of \<^verbatim>\<open>self\<close> is explicit state passing. A function that can raise
  returns a sum whose left injection is the exception. The logger and the log deque are
  not part of the state. Every reading of \<^verbatim>\<open>time.time()\<close> within one call is the
  parameter \<open>now\<close> of that call.
\<close>

datatype py_exception = ZeroDivisionError | Exception string

text \<open>\<^verbatim>\<open>str(e)\<close> as used by \<^verbatim>\<open>error = str(e)\<close>.\<close>

fun str_of :: "py_exception \<Rightarrow> string" where
  "str_of ZeroDivisionError = ''float division by zero''"
| "str_of (Exception msg) = msg"

text \<open>Truthiness of an \<^verbatim>\<open>Optional[str]\<close>: \<^verbatim>\<open>None\<close> and the empty string are falsy.\<close>

fun truthy :: "string option \<Rightarrow> bool" where
  "truthy None = False"
| "truthy (Some s) = (s \<noteq> [])"

section \<open>The trading client (opaque collaborator)\<close>

text \<open>
  \<^verbatim>\<open>ClobClient\<close> is not code of this repository. It is modelled as a deterministic
  responder: the reply to a call is a function of the calls made before and of the call
  itself, and every call is recorded. A reply either raises or returns a response; a
  response is \<^verbatim>\<open>None\<close> or a dictionary with string values. Construction of the
  \<^verbatim>\<open>OrderArgs\<close> value is counted as part of the \<^verbatim>\<open>create_order\<close> call.
\<close>

record OrderArgs =
  oa_token_id :: string
  oa_price :: real
  oa_size :: real
  oa_side :: string
  oa_order_type :: string

datatype client_call = CreateOrder OrderArgs | CancelOrder string

datatype response = RNone | RDict "(string \<times> string) list"

datatype client_reply = Raises string | Returns response

record ClobClient =
  behaviour :: "client_call list \<Rightarrow> client_call \<Rightarrow> client_reply"
  calls :: "client_call list"

definition invoke :: "ClobClient \<Rightarrow> client_call \<Rightarrow> client_reply \<times> ClobClient" where
  "invoke c call = (behaviour c (calls c) call, c\<lparr>calls := calls c @ [call]\<rparr>)"

section \<open>arbitrage\_executor.py\<close>

record ArbitrageOpportunity =
  event_title :: string
  market_type :: string
  side1_token_id :: string
  side1_name :: string
  side1_price :: real
  side2_token_id :: string
  side2_name :: string
  side2_price :: real
  total :: real
  profit_percent :: real
  timestamp :: real

record ArbitrageExecution =
  opportunity :: ArbitrageOpportunity
  exec_bankroll :: real
  stake1 :: real
  stake2 :: real
  order1_id :: "string option"
  order2_id :: "string option"
  success :: bool
  error :: "string option"
  exec_timestamp :: real

record ArbitrageExecutor =
  private_key :: string
  bankroll :: real
  min_profit_percent :: real
  auto_execute :: bool
  chain_id :: int
  client :: "ClobClient option"
  executions :: "ArbitrageExecution list"
  total_profit :: real
  successful_trades :: int
  failed_trades :: int

text \<open>
  \<^verbatim>\<open>__init__\<close>: the constructor of the client is a parameter; when it raises, the
  exception is caught and \<^verbatim>\<open>self.client = None\<close>.
\<close>

definition init_executor ::
  "(string \<Rightarrow> string \<Rightarrow> int \<Rightarrow> py_exception + ClobClient) \<Rightarrow>
   string \<Rightarrow> real \<Rightarrow> real \<Rightarrow> bool \<Rightarrow> int \<Rightarrow> ArbitrageExecutor" where
  "init_executor mk_client key br min_profit auto cid =
     \<lparr>private_key = key, bankroll = br, min_profit_percent = min_profit,
      auto_execute = auto, chain_id = cid,
      client = (case mk_client ''https://clob.polymarket.com'' key cid of
                  Inl e \<Rightarrow> None | Inr c \<Rightarrow> Some c),
      executions = [], total_profit = 0, successful_trades = 0, failed_trades = 0\<rparr>"

definition calculate_stakes :: "real \<Rightarrow> real \<Rightarrow> real \<Rightarrow> py_exception + real \<times> real" where
  "calculate_stakes price1 price2 br =
     (let total_price = price1 + price2 in
      if total_price = 0 then Inl ZeroDivisionError
      else Inr (br * price1 / total_price, br * price2 / total_price))"

definition calculate_stakes_3way ::
  "real \<Rightarrow> real \<Rightarrow> real \<Rightarrow> real \<Rightarrow> py_exception + real \<times> real \<times> real" where
  "calculate_stakes_3way price1 price2 price3 br =
     (let total_price = price1 + price2 + price3 in
      if total_price = 0 then Inl ZeroDivisionError
      else Inr (br * price1 / total_price, br * price2 / total_price,
                br * price3 / total_price))"

definition calculate_profit :: "real \<Rightarrow> real \<Rightarrow> real \<Rightarrow> real \<Rightarrow> py_exception + real" where
  "calculate_profit price1 price2 s1 s2 =
     (if price1 = 0 then Inl ZeroDivisionError
      else let payout1 = s1 / price1; profit1 = payout1 - (s1 + s2) in
        if price2 = 0 then Inl ZeroDivisionError
        else let payout2 = s2 / price2; profit2 = payout2 - (s1 + s2) in
          Inr ((profit1 + profit2) / 2))"

definition should_execute :: "ArbitrageExecutor \<Rightarrow> real \<Rightarrow> py_exception + bool" where
  "should_execute ex tot =
     (if \<not> auto_execute ex then Inr False
      else if tot \<ge> 1 then Inr False
      else if tot = 0 then Inl ZeroDivisionError
      else let pp = ((1 - tot) / tot) * 100 in
        if pp < min_profit_percent ex then Inr False else Inr True)"

text \<open>\<^verbatim>\<open>response and 'orderID' in response\<close>, then \<^verbatim>\<open>response['orderID']\<close>.\<close>

fun order_id_of :: "response \<Rightarrow> string option" where
  "order_id_of RNone = None"
| "order_id_of (RDict kvs) = map_of kvs ''orderID''"

text \<open>What \<^verbatim>\<open>place_order\<close> makes of the client's reply: an exception is caught and gives
  \<^verbatim>\<open>None\<close>.\<close>

fun reply_order_id :: "client_reply \<Rightarrow> string option" where
  "reply_order_id (Raises e) = None"
| "reply_order_id (Returns resp) = order_id_of resp"

definition place_order ::
  "ArbitrageExecutor \<Rightarrow> string \<Rightarrow> string \<Rightarrow> real \<Rightarrow> real \<Rightarrow> string option \<times> ArbitrageExecutor" where
  "place_order ex tok sd pr sz =
     (case client ex of
        None \<Rightarrow> (None, ex)
      | Some c \<Rightarrow>
          (let order_args = \<lparr>oa_token_id = tok, oa_price = pr, oa_size = sz, oa_side = sd,
                              oa_order_type = ''GTC''\<rparr>;
               (reply, c') = invoke c (CreateOrder order_args)
           in (reply_order_id reply, ex\<lparr>client := Some c'\<rparr>)))"

text \<open>
  The compensating cancel: \<^verbatim>\<open>try: self.client.cancel_order(order1_id) except: pass\<close>.
  With no client the attribute access raises and is swallowed.
\<close>

definition cancel_order1 :: "ArbitrageExecutor \<Rightarrow> string \<Rightarrow> ArbitrageExecutor" where
  "cancel_order1 ex oid =
     (case client ex of
        None \<Rightarrow> ex
      | Some c \<Rightarrow> ex\<lparr>client := Some (snd (invoke c (CancelOrder oid)))\<rparr>)"

text \<open>
  The \<^verbatim>\<open>try\<close> block of \<^verbatim>\<open>execute_arbitrage\<close> with its \<^verbatim>\<open>except\<close> handler: the result is
  \<open>(order1_id, order2_id, success, error)\<close> and the executor with its counters updated.
\<close>

definition failed :: "ArbitrageExecutor \<Rightarrow> ArbitrageExecutor" where
  "failed ex = ex\<lparr>failed_trades := failed_trades ex + 1\<rparr>"

definition place_legs ::
  "ArbitrageExecutor \<Rightarrow> ArbitrageOpportunity \<Rightarrow> real \<Rightarrow> real \<Rightarrow> real \<Rightarrow>
   (string option \<times> string option \<times> bool \<times> string option) \<times> ArbitrageExecutor" where
  "place_legs ex opp s1 s2 profit =
     (if side1_price opp = 0
      then ((None, None, False, Some (str_of ZeroDivisionError)), failed ex)
      else
        let (o1, ex1) = place_order ex (side1_token_id opp) ''BUY'' (side1_price opp)
                          (s1 / side1_price opp)
        in if \<not> truthy o1
           then ((o1, None, False, Some ''Failed to place order 1''), failed ex1)
           else if side2_price opp = 0
           then ((o1, None, False, Some (str_of ZeroDivisionError)), failed ex1)
           else
             let (o2, ex2) = place_order ex1 (side2_token_id opp) ''BUY'' (side2_price opp)
                               (s2 / side2_price opp)
             in if \<not> truthy o2
                then ((o1, o2, False, Some ''Failed to place order 2''),
                      failed (cancel_order1 ex2 (the o1)))
                else ((o1, o2, True, None),
                      ex2\<lparr>successful_trades := successful_trades ex2 + 1,
                          total_profit := total_profit ex2 + profit\<rparr>))"

definition execute_arbitrage ::
  "ArbitrageExecutor \<Rightarrow> ArbitrageOpportunity \<Rightarrow> real \<Rightarrow>
   py_exception + ArbitrageExecution \<times> ArbitrageExecutor" where
  "execute_arbitrage ex opp now =
     (case calculate_stakes (side1_price opp) (side2_price opp) (bankroll ex) of
        Inl e \<Rightarrow> Inl e
      | Inr (s1, s2) \<Rightarrow>
          (case calculate_profit (side1_price opp) (side2_price opp) s1 s2 of
             Inl e \<Rightarrow> Inl e
           | Inr profit \<Rightarrow>
               (let ((o1, o2, ok, err), ex') = place_legs ex opp s1 s2 profit;
                    execution = \<lparr>opportunity = opp, exec_bankroll = bankroll ex',
                                 stake1 = s1, stake2 = s2, order1_id = o1, order2_id = o2,
                                 success = ok, error = err, exec_timestamp = now\<rparr>
                in Inr (execution, ex'\<lparr>executions := executions ex' @ [execution]\<rparr>))))"

record Stats =
  st_total_executions :: int
  st_successful_trades :: int
  st_failed_trades :: int

text \<open>\<^verbatim>\<open>get_stats\<close>, restricted to the three counters (the other entries copy fields).\<close>

definition get_stats :: "ArbitrageExecutor \<Rightarrow> Stats" where
  "get_stats ex =
     \<lparr>st_total_executions = int (length (executions ex)),
      st_successful_trades = successful_trades ex,
      st_failed_trades = failed_trades ex\<rparr>"

section \<open>Observations and drivers used in the statements\<close>

text \<open>The calls the executor's client has received so far (none when there is no client).\<close>

definition client_calls :: "ArbitrageExecutor \<Rightarrow> client_call list" where
  "client_calls ex = (case client ex of None \<Rightarrow> [] | Some c \<Rightarrow> calls c)"

text \<open>
  The executor after a sequence of calls of \<^verbatim>\<open>execute_arbitrage\<close>. A call that raises does
  so in \<^verbatim>\<open>calculate_stakes\<close> or \<^verbatim>\<open>calculate_profit\<close>, before any assignment to \<^verbatim>\<open>self\<close>,
  and leaves the executor as it was.
\<close>

fun execute_all ::
  "ArbitrageExecutor \<Rightarrow> (ArbitrageOpportunity \<times> real) list \<Rightarrow> ArbitrageExecutor" where
  "execute_all ex [] = ex"
| "execute_all ex ((opp, now) # rest) =
     (case execute_arbitrage ex opp now of
        Inl e \<Rightarrow> execute_all ex rest
      | Inr (r, ex') \<Rightarrow> execute_all ex' rest)"

text \<open>A client constructor that raises, and one that builds a client with a given behaviour.\<close>

definition no_client :: "string \<Rightarrow> string \<Rightarrow> int \<Rightarrow> py_exception + ClobClient" where
  "no_client host key cid = Inl (Exception ''client construction failed'')"

definition client_with ::
  "(client_call list \<Rightarrow> client_call \<Rightarrow> client_reply) \<Rightarrow>
   string \<Rightarrow> string \<Rightarrow> int \<Rightarrow> py_exception + ClobClient" where
  "client_with b host key cid = Inr \<lparr>behaviour = b, calls = []\<rparr>"

text \<open>
  Client behaviours for concrete runs: one that rejects every call, one that accepts every
  order under the id \<^verbatim>\<open>order-n\<close> style name given, and one that accepts only the first
  order it receives.
\<close>

definition rejecting :: "client_call list \<Rightarrow> client_call \<Rightarrow> client_reply" where
  "rejecting hist call = Raises ''rejected''"

definition first_leg_only :: "client_call list \<Rightarrow> client_call \<Rightarrow> client_reply" where
  "first_leg_only hist call =
     (case call of
        CreateOrder a \<Rightarrow>
          if hist = [] then Returns (RDict [(''orderID'', ''order-1'')]) else Raises ''rejected''
      | CancelOrder oid \<Rightarrow> Returns RNone)"

definition accepting :: "client_call list \<Rightarrow> client_call \<Rightarrow> client_reply" where
  "accepting hist call =
     (case call of
        CreateOrder a \<Rightarrow> Returns (RDict [(''orderID'', oa_token_id a)])
      | CancelOrder oid \<Rightarrow> Returns RNone)"

definition demo_opportunity :: "real \<Rightarrow> real \<Rightarrow> ArbitrageOpportunity" where
  "demo_opportunity p1 p2 =
     \<lparr>event_title = ''Dodgers vs Phillies'', market_type = ''Moneyline'',
      side1_token_id = ''tok-1'', side1_name = ''Dodgers'', side1_price = p1,
      side2_token_id = ''tok-2'', side2_name = ''Phillies'', side2_price = p2,
      total = p1 + p2, profit_percent = 0, timestamp = 0\<rparr>"

text \<open>The bookkeeping invariant of an executor.\<close>

definition books_balanced :: "ArbitrageExecutor \<Rightarrow> bool" where
  "books_balanced ex =
     (successful_trades ex + failed_trades ex = int (length (executions ex))
      \<and> list_all (\<lambda>r. success r = (truthy (order1_id r) \<and> truthy (order2_id r))
                        \<and> (order2_id r \<noteq> None \<longrightarrow> truthy (order1_id r)))
            (executions ex))"

section \<open>config.py\<close>

definition MAX_ORDERBOOK_HISTORY :: nat where
  "MAX_ORDERBOOK_HISTORY = 1000"

section \<open>orderbook\_monitor.py: data\<close>

record OrderbookSnapshot =
  snap_timestamp :: real
  market_id :: string
  market_name :: string
  best_bid :: real
  best_ask :: real
  bid_size :: real
  ask_size :: real
  spread :: real
  mid_price :: real

record ATHRecord =
  ath_market_id :: string
  ath_market_name :: string
  ath_price :: real
  ath_size :: real
  ath_timestamp :: real
  ath_side :: string

record ATLRecord =
  atl_market_id :: string
  atl_market_name :: string
  atl_price :: real
  atl_size :: real
  atl_timestamp :: real
  atl_side :: string

record BestMatch =
  bm_event_id :: string
  bm_event_title :: string
  bm_market_type :: string
  bm_side1_name :: string
  bm_side1_price :: real
  bm_side2_name :: string
  bm_side2_price :: real
  bm_total :: real
  bm_timestamp :: real

record TotalRecord =
  tr_event_id :: string
  tr_event_title :: string
  tr_market_type :: string
  tr_side1_name :: string
  tr_side1_price :: real
  tr_side2_name :: string
  tr_side2_price :: real
  tr_total :: real
  tr_timestamp :: real
  is_best :: bool

text \<open>
  One entry of a bid or ask list, \<^verbatim>\<open>{'price': ..., 'size': ...}\<close>. A field is \<^verbatim>\<open>None\<close> when the
  key is missing or \<^verbatim>\<open>float(...)\<close> of its value raises. An order-book object carries the
  instrument id (for the REST path it is passed separately) and the two lists;
  \<^verbatim>\<open>data.get('bids', [])\<close> of a missing key is the empty list.
\<close>

record book_entry =
  entry_price :: "real option"
  entry_size :: "real option"

record book =
  asset_id :: "string option"
  bids :: "book_entry list"
  asks :: "book_entry list"

text \<open>
  The monitor. \<^verbatim>\<open>current_snapshots\<close> is a dictionary that is iterated, so it is a list of
  pairs in insertion order; the dictionaries that are only looked up are maps. Not part
  of the state: subscriptions, the connection, the log and the latency window.
\<close>

record OrderbookMonitor =
  orderbook_data :: "string \<rightharpoonup> OrderbookSnapshot list"
  ath_records :: "string \<rightharpoonup> ATHRecord"
  atl_records :: "string \<rightharpoonup> ATLRecord"
  current_snapshots :: "(string \<times> OrderbookSnapshot) list"
  token_to_market :: "string \<rightharpoonup> string"
  market_to_token :: "string \<rightharpoonup> string"
  best_matches :: "BestMatch list"
  total_records :: "TotalRecord list"
  last_totals :: "string \<rightharpoonup> real"
  arbitrage_executor :: "ArbitrageExecutor option"

definition init_monitor :: "ArbitrageExecutor option \<Rightarrow> OrderbookMonitor" where
  "init_monitor ex =
     \<lparr>orderbook_data = Map.empty, ath_records = Map.empty, atl_records = Map.empty,
      current_snapshots = [], token_to_market = Map.empty, market_to_token = Map.empty,
      best_matches = [], total_records = [], last_totals = Map.empty,
      arbitrage_executor = ex\<rparr>"

section \<open>orderbook\_monitor.py: containers\<close>

text \<open>\<^verbatim>\<open>d[k] = v\<close> on an insertion-ordered dictionary: an existing key keeps its place.\<close>

fun dict_set :: "'k \<Rightarrow> 'v \<Rightarrow> ('k \<times> 'v) list \<Rightarrow> ('k \<times> 'v) list" where
  "dict_set k v [] = [(k, v)]"
| "dict_set k v ((k', v') # rest) =
     (if k' = k then (k', v) # rest else (k', v') # dict_set k v rest)"

text \<open>
  \<^verbatim>\<open>d[k]\<close> changed in place on a \<^verbatim>\<open>defaultdict\<close> whose default is \<open>dflt\<close>: a missing key is
  inserted at the end with the changed default.
\<close>

fun dict_upd :: "'k \<Rightarrow> 'v \<Rightarrow> ('v \<Rightarrow> 'v) \<Rightarrow> ('k \<times> 'v) list \<Rightarrow> ('k \<times> 'v) list" where
  "dict_upd k dflt f [] = [(k, f dflt)]"
| "dict_upd k dflt f ((k', v) # rest) =
     (if k' = k then (k', f v) # rest else (k', v) # dict_upd k dflt f rest)"

text \<open>\<^verbatim>\<open>deque(maxlen=n).append(x)\<close>: append, then drop the oldest entry if the bound is exceeded.\<close>

definition deque_append :: "nat \<Rightarrow> 'a list \<Rightarrow> 'a \<Rightarrow> 'a list" where
  "deque_append maxlen d x = (let d' = d @ [x] in if length d' > maxlen then tl d' else d')"

text \<open>\<^verbatim>\<open>self.orderbook_data[token]\<close>, a \<^verbatim>\<open>defaultdict\<close> of bounded deques.\<close>

definition history :: "OrderbookMonitor \<Rightarrow> string \<Rightarrow> OrderbookSnapshot list" where
  "history st tok = (case orderbook_data st tok of None \<Rightarrow> [] | Some h \<Rightarrow> h)"

section \<open>orderbook\_monitor.py: strings\<close>

text \<open>\<^verbatim>\<open>sub in s\<close>.\<close>

fun contains :: "string \<Rightarrow> string \<Rightarrow> bool" where
  "contains sub [] = (sub = [])"
| "contains sub (c # cs) = (take (length sub) (c # cs) = sub \<or> contains sub cs)"

text \<open>
  \<^verbatim>\<open>s.split(sep)\<close> for a non-empty separator: \<open>split_on sep cur s\<close> scans \<open>s\<close> from the left
  with \<open>cur\<close> the part read since the last separator.
\<close>

function split_on :: "string \<Rightarrow> string \<Rightarrow> string \<Rightarrow> string list" where
  "split_on sep cur s =
     (if s = [] then [cur]
      else if sep \<noteq> [] \<and> take (length sep) s = sep
      then cur # split_on sep [] (drop (length sep) s)
      else split_on sep (cur @ [hd s]) (tl s))"
  by pat_completeness auto
termination
  by (relation "measure (\<lambda>(sep, cur, s). length s)") auto

definition py_split :: "string \<Rightarrow> string \<Rightarrow> string list" where
  "py_split s sep = split_on sep [] s"

section \<open>orderbook\_monitor.py: best prices of a book\<close>

text \<open>
  \<^verbatim>\<open>min(asks, key=lambda x: float(x['price']))\<close>: the key of every entry is computed, the
  first entry with the least key wins, and a key that cannot be computed raises (result
  \<^verbatim>\<open>None\<close>). \<open>min_from best k rest\<close> is the loop with the best entry so far and its key.
\<close>

fun min_from :: "book_entry \<Rightarrow> real \<Rightarrow> book_entry list \<Rightarrow> book_entry option" where
  "min_from best k [] = Some best"
| "min_from best k (x # xs) =
     (case entry_price x of
        None \<Rightarrow> None
      | Some kx \<Rightarrow> if kx < k then min_from x kx xs else min_from best k xs)"

fun min_by_price :: "book_entry list \<Rightarrow> book_entry option" where
  "min_by_price [] = None"
| "min_by_price (a # rest) =
     (case entry_price a of None \<Rightarrow> None | Some k \<Rightarrow> min_from a k rest)"

text \<open>
  The price extraction shared by \<^verbatim>\<open>process_book_message\<close> and \<^verbatim>\<open>process_orderbook_data\<close>
  for non-empty lists: the lowest ask by \<^verbatim>\<open>min\<close>, the bid from \<^verbatim>\<open>bids[0]\<close>. The result is
  \<open>(best_bid, bid_size, best_ask, ask_size)\<close>, or \<^verbatim>\<open>None\<close> when a conversion raises (the
  exception is caught by the caller and only logged).
\<close>

definition best_prices :: "book_entry list \<Rightarrow> book_entry list \<Rightarrow> (real \<times> real \<times> real \<times> real) option" where
  "best_prices bs as =
     (case min_by_price as of
        None \<Rightarrow> None
      | Some min_ask \<Rightarrow>
          (case (entry_price min_ask, entry_size min_ask) of
             (Some best_ask', Some ask_size') \<Rightarrow>
               (case bs of
                  [] \<Rightarrow> None
                | b0 # rest \<Rightarrow>
                    (case (entry_price b0, entry_size b0) of
                       (Some best_bid', Some bid_size') \<Rightarrow>
                         Some (best_bid', bid_size', best_ask', ask_size')
                     | _ \<Rightarrow> None))
           | _ \<Rightarrow> None))"

definition make_snapshot ::
  "real \<Rightarrow> string \<Rightarrow> string \<Rightarrow> real \<times> real \<times> real \<times> real \<Rightarrow> OrderbookSnapshot" where
  "make_snapshot now mid mname q =
     (case q of (best_bid', bid_size', best_ask', ask_size') \<Rightarrow>
        \<lparr>snap_timestamp = now, market_id = mid, market_name = mname,
         best_bid = best_bid', best_ask = best_ask',
         bid_size = bid_size', ask_size = ask_size',
         spread = best_ask' - best_bid', mid_price = (best_bid' + best_ask') / 2\<rparr>)"

section \<open>orderbook\_monitor.py: extremes and storing a snapshot\<close>

definition check_ath ::
  "OrderbookMonitor \<Rightarrow> string \<Rightarrow> string \<Rightarrow> real \<Rightarrow> real \<Rightarrow> string \<Rightarrow> real \<Rightarrow> OrderbookMonitor" where
  "check_ath st mid mname price sz side now =
     (let key = mid @ ''_'' @ side;
          rec = \<lparr>ath_market_id = mid, ath_market_name = mname, ath_price = price,
                 ath_size = sz, ath_timestamp = now, ath_side = side\<rparr>
      in case ath_records st key of
           None \<Rightarrow> st\<lparr>ath_records := (ath_records st)(key \<mapsto> rec)\<rparr>
         | Some old \<Rightarrow>
             if price > ath_price old then st\<lparr>ath_records := (ath_records st)(key \<mapsto> rec)\<rparr>
             else st)"

definition check_atl ::
  "OrderbookMonitor \<Rightarrow> string \<Rightarrow> string \<Rightarrow> real \<Rightarrow> real \<Rightarrow> string \<Rightarrow> real \<Rightarrow> OrderbookMonitor" where
  "check_atl st mid mname price sz side now =
     (let key = mid @ ''_'' @ side;
          rec = \<lparr>atl_market_id = mid, atl_market_name = mname, atl_price = price,
                 atl_size = sz, atl_timestamp = now, atl_side = side\<rparr>
      in case atl_records st key of
           None \<Rightarrow> st\<lparr>atl_records := (atl_records st)(key \<mapsto> rec)\<rparr>
         | Some old \<Rightarrow>
             if price < atl_price old then st\<lparr>atl_records := (atl_records st)(key \<mapsto> rec)\<rparr>
             else st)"

text \<open>
  The block both processing functions run once the snapshot is built: replace the current
  snapshot, append to the bounded history, then the four extreme checks in source order.
\<close>

definition store_snapshot :: "OrderbookMonitor \<Rightarrow> OrderbookSnapshot \<Rightarrow> real \<Rightarrow> OrderbookMonitor" where
  "store_snapshot st snap now =
     (let tok = market_id snap; mname = market_name snap;
          st1 = st\<lparr>current_snapshots := dict_set tok snap (current_snapshots st),
                    orderbook_data := (orderbook_data st)
                      (tok \<mapsto> deque_append MAX_ORDERBOOK_HISTORY (history st tok) snap)\<rparr>;
          st2 = check_ath st1 tok mname (best_bid snap) (bid_size snap) ''bid'' now;
          st3 = check_ath st2 tok mname (best_ask snap) (ask_size snap) ''ask'' now;
          st4 = check_atl st3 tok mname (best_bid snap) (bid_size snap) ''bid'' now
      in check_atl st4 tok mname (best_ask snap) (ask_size snap) ''ask'' now)"

definition process_orderbook_data ::
  "OrderbookMonitor \<Rightarrow> string \<Rightarrow> string \<Rightarrow> book \<Rightarrow> real \<Rightarrow> OrderbookMonitor" where
  "process_orderbook_data st tok mname data now =
     (if bids data = [] \<or> asks data = [] then st
      else case best_prices (bids data) (asks data) of
             None \<Rightarrow> st
           | Some q \<Rightarrow> store_snapshot st (make_snapshot now tok mname q) now)"

section \<open>orderbook\_monitor.py: detection\<close>

record outcome_entry =
  oe_snapshot :: OrderbookSnapshot
  oe_outcome :: string

definition market_type_of :: "string \<Rightarrow> string" where
  "market_type_of event_name =
     (if contains ''Spread'' event_name then ''Spread''
      else if contains ''O/U'' event_name \<or> contains ''Over/Under'' event_name then ''O/U''
      else ''Moneyline'')"

text \<open>The first loop of \<^verbatim>\<open>check_best_matches\<close>: one snapshot added to the nested dictionary.\<close>

definition group_add ::
  "(string \<times> (string \<times> outcome_entry list) list) list \<Rightarrow> OrderbookSnapshot \<Rightarrow>
   (string \<times> (string \<times> outcome_entry list) list) list" where
  "group_add em snap =
     (let parts = py_split (market_name snap) '' - '' in
      if length parts < 2 then em
      else let event_name = parts ! 0; outcome = parts ! 1;
               mt = market_type_of event_name;
               entry = \<lparr>oe_snapshot = snap, oe_outcome = outcome\<rparr>
           in dict_upd event_name [] (dict_upd mt [] (\<lambda>xs. xs @ [entry])) em)"

definition group_snapshots ::
  "OrderbookSnapshot list \<Rightarrow> (string \<times> (string \<times> outcome_entry list) list) list" where
  "group_snapshots snaps = foldl group_add [] snaps"

text \<open>
  \<^verbatim>\<open>OrderbookMonitor.execute_arbitrage\<close>: everything is inside \<^verbatim>\<open>try ... except Exception\<close>, so
  an exception of the executor leaves the monitor (and the executor) as they were.
\<close>

definition monitor_execute_arbitrage ::
  "OrderbookMonitor \<Rightarrow> string \<Rightarrow> string \<Rightarrow> string \<Rightarrow> real \<Rightarrow> string \<Rightarrow>
   string \<Rightarrow> real \<Rightarrow> string \<Rightarrow> real \<Rightarrow> real \<Rightarrow> OrderbookMonitor" where
  "monitor_execute_arbitrage st event_name mt s1_name s1_price s1_market_name
       s2_name s2_price s2_market_name tot now =
     (let tok1 = market_to_token st s1_market_name;
          tok2 = market_to_token st s2_market_name
      in if \<not> truthy tok1 \<or> \<not> truthy tok2 then st
         else if tot = 0 then st
         else
           let pp = ((1 - tot) / tot) * 100;
               opp = \<lparr>event_title = event_name, market_type = mt,
                      side1_token_id = the tok1, side1_name = s1_name, side1_price = s1_price,
                      side2_token_id = the tok2, side2_name = s2_name, side2_price = s2_price,
                      total = tot, profit_percent = pp, timestamp = now\<rparr>
           in case arbitrage_executor st of
                None \<Rightarrow> st
              | Some ex \<Rightarrow>
                  (case execute_arbitrage ex opp now of
                     Inl e \<Rightarrow> st
                   | Inr (execution, ex') \<Rightarrow> st\<lparr>arbitrage_executor := Some ex'\<rparr>))"

text \<open>
  The body of the second loop of \<^verbatim>\<open>check_best_matches\<close> for one group. The first component
  of the result is the exception that leaves the loop, if any; the only statement of the
  body that can raise past it is the call of \<^verbatim>\<open>should_execute\<close>.
\<close>

definition scan_pair ::
  "OrderbookMonitor \<Rightarrow> string \<Rightarrow> string \<Rightarrow> outcome_entry list \<Rightarrow> real \<Rightarrow>
   py_exception option \<times> OrderbookMonitor" where
  "scan_pair st event_name mt outcomes now =
     (if length outcomes = 2 then
        let side1 = outcomes ! 0; side2 = outcomes ! 1;
            p1 = best_ask (oe_snapshot side1); p2 = best_ask (oe_snapshot side2);
            tot = p1 + p2;
            pair_key = event_name @ ''_'' @ mt
        in if (case last_totals st pair_key of None \<Rightarrow> True | Some l \<Rightarrow> \<bar>l - tot\<bar> > 1 / 1000)
           then
             let record = \<lparr>tr_event_id = pair_key, tr_event_title = event_name,
                             tr_market_type = mt,
                             tr_side1_name = oe_outcome side1, tr_side1_price = p1,
                             tr_side2_name = oe_outcome side2, tr_side2_price = p2,
                             tr_total = tot, tr_timestamp = now, is_best = (tot < 1)\<rparr>;
                 st1 = st\<lparr>total_records := total_records st @ [record],
                           last_totals := (last_totals st)(pair_key \<mapsto> tot)\<rparr>
             in if tot < 1 then
                  let best_match = \<lparr>bm_event_id = pair_key, bm_event_title = event_name,
                                     bm_market_type = mt,
                                     bm_side1_name = oe_outcome side1, bm_side1_price = p1,
                                     bm_side2_name = oe_outcome side2, bm_side2_price = p2,
                                     bm_total = tot, bm_timestamp = now\<rparr>;
                      st2 = st1\<lparr>best_matches := best_matches st1 @ [best_match]\<rparr>
                  in case arbitrage_executor st2 of
                       None \<Rightarrow> (None, st2)
                     | Some ex \<Rightarrow>
                         (case should_execute ex tot of
                            Inl e \<Rightarrow> (Some e, st2)
                          | Inr go \<Rightarrow>
                              if go then
                                (None, monitor_execute_arbitrage st2 event_name mt
                                   (oe_outcome side1) p1 (market_name (oe_snapshot side1))
                                   (oe_outcome side2) p2 (market_name (oe_snapshot side2))
                                   tot now)
                              else (None, st2))
                else (None, st1)
           else (None, st)
      else (None, st))"

fun scan_types ::
  "OrderbookMonitor \<Rightarrow> string \<Rightarrow> (string \<times> outcome_entry list) list \<Rightarrow> real \<Rightarrow>
   py_exception option \<times> OrderbookMonitor" where
  "scan_types st event_name [] now = (None, st)"
| "scan_types st event_name ((mt, outcomes) # rest) now =
     (case scan_pair st event_name mt outcomes now of
        (Some e, st') \<Rightarrow> (Some e, st')
      | (None, st') \<Rightarrow> scan_types st' event_name rest now)"

fun scan_events ::
  "OrderbookMonitor \<Rightarrow> (string \<times> (string \<times> outcome_entry list) list) list \<Rightarrow> real \<Rightarrow>
   py_exception option \<times> OrderbookMonitor" where
  "scan_events st [] now = (None, st)"
| "scan_events st ((event_name, market_types) # rest) now =
     (case scan_types st event_name market_types now of
        (Some e, st') \<Rightarrow> (Some e, st')
      | (None, st') \<Rightarrow> scan_events st' rest now)"

text \<open>\<^verbatim>\<open>check_best_matches\<close>: an exception that leaves the loops is caught and only logged.\<close>

definition check_best_matches :: "OrderbookMonitor \<Rightarrow> real \<Rightarrow> OrderbookMonitor" where
  "check_best_matches st now =
     snd (scan_events st (group_snapshots (map snd (current_snapshots st))) now)"

definition process_book_message :: "OrderbookMonitor \<Rightarrow> book \<Rightarrow> real \<Rightarrow> OrderbookMonitor" where
  "process_book_message st data now =
     (if \<not> truthy (asset_id data) then st
      else
        let tok = the (asset_id data);
            mname = (case token_to_market st tok of None \<Rightarrow> ''Unknown'' | Some n \<Rightarrow> n)
        in if bids data \<noteq> [] \<and> asks data \<noteq> [] then
             (case best_prices (bids data) (asks data) of
                None \<Rightarrow> st
              | Some q \<Rightarrow>
                  check_best_matches (store_snapshot st (make_snapshot now tok mname q) now) now)
           else st)"

text \<open>
  What reaches the store: a frame of the streaming feed, or the reply of the REST
  endpoint for one instrument (\<^verbatim>\<open>process_orderbook_data(token_id, market_name, data)\<close>).
\<close>

datatype feed_event =
  BookMessage book real
| RestData string string book real

fun ingest :: "OrderbookMonitor \<Rightarrow> feed_event \<Rightarrow> OrderbookMonitor" where
  "ingest st (BookMessage data now) = process_book_message st data now"
| "ingest st (RestData tok mname data now) = process_orderbook_data st tok mname data now"

definition ingest_all :: "OrderbookMonitor \<Rightarrow> feed_event list \<Rightarrow> OrderbookMonitor" where
  "ingest_all st evs = foldl ingest st evs"

text \<open>Two monitor states with the same store: history, extremes, current snapshots, registry.\<close>

definition same_store :: "OrderbookMonitor \<Rightarrow> OrderbookMonitor \<Rightarrow> bool" where
  "same_store st st' =
     (orderbook_data st' = orderbook_data st \<and> ath_records st' = ath_records st
      \<and> atl_records st' = atl_records st \<and> current_snapshots st' = current_snapshots st
      \<and> token_to_market st' = token_to_market st \<and> market_to_token st' = market_to_token st)"

text \<open>Order-book entries and objects for concrete runs.\<close>

definition level :: "real \<Rightarrow> real \<Rightarrow> book_entry" where
  "level p s = \<lparr>entry_price = Some p, entry_size = Some s\<rparr>"

definition demo_book :: "string \<Rightarrow> book_entry list \<Rightarrow> book_entry list \<Rightarrow> book" where
  "demo_book tok bs as = \<lparr>asset_id = Some tok, bids = bs, asks = as\<rparr>"

text \<open>One store never lowers a recorded high and never raises a recorded low.\<close>

definition extremes_kept :: "OrderbookMonitor \<Rightarrow> OrderbookMonitor \<Rightarrow> bool" where
  "extremes_kept st st' =
     ((\<forall>k r. ath_records st k = Some r \<longrightarrow>
          (\<exists>r'. ath_records st' k = Some r' \<and> (r' = r \<or> ath_price r < ath_price r')))
      \<and> (\<forall>k l. atl_records st k = Some l \<longrightarrow>
          (\<exists>l'. atl_records st' k = Some l' \<and> (l' = l \<or> atl_price l' < atl_price l))))"

text \<open>A feed of REST replies for one instrument: bid \<open>0.30\<close>, and the given ask at the given time.\<close>

definition ask_feed :: "(real \<times> real) list \<Rightarrow> feed_event list" where
  "ask_feed pts =
     map (\<lambda>(p, t). RestData ''tok-1'' ''A vs B - A''
                     (demo_book ''tok-1'' [level (3/10) 10] [level p 5]) t) pts"

text \<open>
  The snapshot an event makes the store record, if any, given the registry
  \<^verbatim>\<open>token_to_market\<close> (which no event changes); and, for an instrument, the snapshots a
  sequence of events makes the store record for it, in arrival order.
\<close>

fun produced_snapshot :: "(string \<rightharpoonup> string) \<Rightarrow> feed_event \<Rightarrow> OrderbookSnapshot option" where
  "produced_snapshot t2m (BookMessage data now) =
     (if truthy (asset_id data) \<and> bids data \<noteq> [] \<and> asks data \<noteq> []
      then map_option
             (make_snapshot now (the (asset_id data))
                (case t2m (the (asset_id data)) of None \<Rightarrow> ''Unknown'' | Some n \<Rightarrow> n))
             (best_prices (bids data) (asks data))
      else None)"
| "produced_snapshot t2m (RestData tok mname data now) =
     (if bids data = [] \<or> asks data = [] then None
      else map_option (make_snapshot now tok mname) (best_prices (bids data) (asks data)))"

fun arrivals :: "(string \<rightharpoonup> string) \<Rightarrow> string \<Rightarrow> feed_event list \<Rightarrow> OrderbookSnapshot list" where
  "arrivals t2m tok [] = []"
| "arrivals t2m tok (ev # evs) =
     (case produced_snapshot t2m ev of
        None \<Rightarrow> arrivals t2m tok evs
      | Some s \<Rightarrow> if market_id s = tok then s # arrivals t2m tok evs else arrivals t2m tok evs)"

text \<open>The last \<open>n\<close> elements of a list.\<close>

definition lastn :: "nat \<Rightarrow> 'a list \<Rightarrow> 'a list" where
  "lastn n xs = drop (length xs - n) xs"









text \<open>Whether an executor is attached, and if so its auto-execute flag.\<close>

definition gate_flag :: "OrderbookMonitor \<Rightarrow> bool option" where
  "gate_flag st = map_option auto_execute (arbitrage_executor st)"






section \<open>The gate\<close>

text \<open>
  Claim C3 (the \<^verbatim>\<open>should_execute\<close> gate), as amended: the claim quantifies over every sum,
  but with auto-execute enabled the sum \<open>0\<close> makes the computation of the profit
  percentage raise \<^verbatim>\<open>ZeroDivisionError\<close>. For every sum the gate returns false when
  auto-execute is disabled, and false when the sum is at least \<open>1\<close>; for every sum other
  than \<open>0\<close> and below \<open>1\<close>, with auto-execute enabled, it returns false when
  \<open>(1 - sum) / sum * 100\<close> is below the configured minimum and true otherwise. With a
  minimum of \<open>1\<close> percent the sums \<open>0.97\<close>, \<open>0.995\<close> and \<open>1.0\<close> give true, false and false.
\<close>

theorem should_execute_gate:
  "(\<not> auto_execute ex \<longrightarrow> should_execute ex tot = Inr False)
   \<and> (auto_execute ex \<and> tot \<ge> 1 \<longrightarrow> should_execute ex tot = Inr False)
   \<and> (auto_execute ex \<and> tot < 1 \<and> tot \<noteq> 0 \<and> (1 - tot) / tot * 100 < min_profit_percent ex
        \<longrightarrow> should_execute ex tot = Inr False)
   \<and> (auto_execute ex \<and> tot < 1 \<and> tot \<noteq> 0 \<and> \<not> (1 - tot) / tot * 100 < min_profit_percent ex
        \<longrightarrow> should_execute ex tot = Inr True)
   \<and> (auto_execute ex \<and> min_profit_percent ex = 1
        \<longrightarrow> should_execute ex (97 / 100) = Inr True
          \<and> should_execute ex (995 / 1000) = Inr False
          \<and> should_execute ex 1 = Inr False)"
  by (simp add: should_execute_def Let_def)

theorem should_execute_gate_witness:
  "should_execute (init_executor no_client ''0x00'' 100 1 False 137) 0 = Inr False
   \<and> should_execute (init_executor no_client ''0x00'' 100 1 True 137) (101 / 100) = Inr False
   \<and> should_execute (init_executor no_client ''0x00'' 100 1 True 137) (995 / 1000) = Inr False
   \<and> should_execute (init_executor no_client ''0x00'' 100 1 True 137) (97 / 100) = Inr True
   \<and> should_execute (init_executor no_client ''0x00'' 100 1 True 137) 1 = Inr False"
  using should_execute_gate[of "init_executor no_client ''0x00'' 100 1 False 137" 0]
        should_execute_gate[of "init_executor no_client ''0x00'' 100 1 True 137" "101 / 100"]
        should_execute_gate[of "init_executor no_client ''0x00'' 100 1 True 137" "995 / 1000"]
        should_execute_gate[of "init_executor no_client ''0x00'' 100 1 True 137" "97 / 100"]
  by (simp add: init_executor_def)

text \<open>The sum \<open>0\<close> with auto-execute enabled: the gate raises instead of returning.\<close>

theorem should_execute_zero_sum_raises:
  "should_execute (init_executor no_client ''0x00'' 100 1 True 137) 0 = Inl ZeroDivisionError"
  by (simp add: should_execute_def init_executor_def)

section \<open>Executing an opportunity\<close>

lemma place_order_no_client:
  "client ex = None \<Longrightarrow> place_order ex tok sd pr sz = (None, ex)"
  by (simp add: place_order_def)

lemma place_order_client:
  "client ex = Some c \<Longrightarrow>
   place_order ex tok sd pr sz =
     (reply_order_id (behaviour c (calls c)
        (CreateOrder \<lparr>oa_token_id = tok, oa_price = pr, oa_size = sz, oa_side = sd,
                       oa_order_type = ''GTC''\<rparr>)),
      ex\<lparr>client := Some (c\<lparr>calls := calls c @
        [CreateOrder \<lparr>oa_token_id = tok, oa_price = pr, oa_size = sz, oa_side = sd,
                       oa_order_type = ''GTC''\<rparr>]\<rparr>)\<rparr>)"
  by (simp add: place_order_def invoke_def Let_def)

lemma place_order_truthy_client:
  "place_order ex tok sd pr sz = (oid, ex') \<Longrightarrow> truthy oid \<Longrightarrow> client ex \<noteq> None"
  by (cases "client ex") (auto simp: place_order_no_client)

lemma place_order_fields:
  "place_order ex tok sd pr sz = (oid, ex') \<Longrightarrow>
     executions ex' = executions ex \<and> successful_trades ex' = successful_trades ex
     \<and> failed_trades ex' = failed_trades ex \<and> bankroll ex' = bankroll ex
     \<and> (client ex' = None) = (client ex = None)
     \<and> client_calls ex' = client_calls ex @
          (if client ex = None then [] else
             [CreateOrder \<lparr>oa_token_id = tok, oa_price = pr, oa_size = sz, oa_side = sd,
                            oa_order_type = ''GTC''\<rparr>])"
  by (cases "client ex") (auto simp: place_order_def invoke_def Let_def client_calls_def)

lemma cancel_order1_fields:
  "executions (cancel_order1 ex oid) = executions ex
   \<and> successful_trades (cancel_order1 ex oid) = successful_trades ex
   \<and> failed_trades (cancel_order1 ex oid) = failed_trades ex
   \<and> bankroll (cancel_order1 ex oid) = bankroll ex
   \<and> (client (cancel_order1 ex oid) = None) = (client ex = None)
   \<and> client_calls (cancel_order1 ex oid) = client_calls ex @
          (if client ex = None then [] else [CancelOrder oid])"
  by (cases "client ex") (auto simp: cancel_order1_def invoke_def client_calls_def)

lemma failed_fields:
  "executions (failed ex) = executions ex \<and> successful_trades (failed ex) = successful_trades ex
   \<and> failed_trades (failed ex) = failed_trades ex + 1 \<and> bankroll (failed ex) = bankroll ex
   \<and> client (failed ex) = client ex \<and> client_calls (failed ex) = client_calls ex"
  by (simp add: failed_def client_calls_def)

text \<open>The try block, case by case.\<close>

lemma place_legs_leg1_fails:
  assumes "side1_price opp \<noteq> 0"
    and "place_order ex (side1_token_id opp) ''BUY'' (side1_price opp) (s1 / side1_price opp) = (o1, ex1)"
    and "\<not> truthy o1"
  shows "place_legs ex opp s1 s2 profit =
           ((o1, None, False, Some ''Failed to place order 1''), failed ex1)"
  using assms by (simp add: place_legs_def)

lemma place_legs_leg2_fails:
  assumes "side1_price opp \<noteq> 0" "side2_price opp \<noteq> 0"
    and "place_order ex (side1_token_id opp) ''BUY'' (side1_price opp) (s1 / side1_price opp) = (o1, ex1)"
    and "truthy o1"
    and "place_order ex1 (side2_token_id opp) ''BUY'' (side2_price opp) (s2 / side2_price opp) = (o2, ex2)"
    and "\<not> truthy o2"
  shows "place_legs ex opp s1 s2 profit =
           ((o1, o2, False, Some ''Failed to place order 2''), failed (cancel_order1 ex2 (the o1)))"
  using assms by (simp add: place_legs_def)

lemma place_legs_both:
  assumes "side1_price opp \<noteq> 0" "side2_price opp \<noteq> 0"
    and "place_order ex (side1_token_id opp) ''BUY'' (side1_price opp) (s1 / side1_price opp) = (o1, ex1)"
    and "truthy o1"
    and "place_order ex1 (side2_token_id opp) ''BUY'' (side2_price opp) (s2 / side2_price opp) = (o2, ex2)"
    and "truthy o2"
  shows "place_legs ex opp s1 s2 profit =
           ((o1, o2, True, None),
            ex2\<lparr>successful_trades := successful_trades ex2 + 1,
                total_profit := total_profit ex2 + profit\<rparr>)"
  using assms by (simp add: place_legs_def)

lemma calculate_stakes_defined:
  "p1 + p2 \<noteq> 0 \<Longrightarrow>
   calculate_stakes p1 p2 b = Inr (b * p1 / (p1 + p2), b * p2 / (p1 + p2))"
  by (simp add: calculate_stakes_def Let_def)

lemma calculate_profit_defined:
  "p1 \<noteq> 0 \<Longrightarrow> p2 \<noteq> 0 \<Longrightarrow>
   calculate_profit p1 p2 s1 s2 = Inr ((s1 / p1 - (s1 + s2) + (s2 / p2 - (s1 + s2))) / 2)"
  unfolding calculate_profit_def Let_def by (simp only: if_False)

lemma execute_arbitrage_unfold:
  assumes "calculate_stakes (side1_price opp) (side2_price opp) (bankroll ex) = Inr (s1, s2)"
    and "calculate_profit (side1_price opp) (side2_price opp) s1 s2 = Inr profit"
    and "place_legs ex opp s1 s2 profit = ((o1, o2, ok, err), ex')"
    and "r = \<lparr>opportunity = opp, exec_bankroll = bankroll ex', stake1 = s1, stake2 = s2,
              order1_id = o1, order2_id = o2, success = ok, error = err,
              exec_timestamp = now\<rparr>"
  shows "execute_arbitrage ex opp now = Inr (r, ex'\<lparr>executions := executions ex' @ [r]\<rparr>)"
  using assms by (simp add: execute_arbitrage_def Let_def)

lemma execute_arbitrage_raises:
  "side1_price opp = 0 \<or> side2_price opp = 0 \<or> side1_price opp + side2_price opp = 0
   \<Longrightarrow> execute_arbitrage ex opp now = Inl ZeroDivisionError"
  by (auto simp: execute_arbitrage_def calculate_stakes_def calculate_profit_def Let_def)

text \<open>
  Claim C2 (execution compensation), as amended: a call of \<^verbatim>\<open>execute_arbitrage\<close> whose
  opportunity has a leg price \<open>0\<close> or leg prices adding up to \<open>0\<close> raises
  \<^verbatim>\<open>ZeroDivisionError\<close> before the \<^verbatim>\<open>try\<close> block. For every call with non-zero leg prices
  whose sum is not zero the call returns an execution record, with an error text whenever
  \<open>success\<close> is false. Here \<open>o1\<close> and \<open>o2\<close> are what \<^verbatim>\<open>place_order\<close> gives for the two legs, and
  an order id is absent when it is falsy (\<^verbatim>\<open>None\<close> or empty), the test the code applies.
  If leg 1 gives no order id, the record carries that (absent) id for leg 1 and \<^verbatim>\<open>None\<close>
  for leg 2, \<open>success\<close> is false, and the client has received at most the order of leg 1:
  leg 2 is not attempted and nothing is cancelled. If leg 1 gives an id and leg 2 does
  not, the client has received the two orders and then exactly one cancel, of the id of
  leg 1; the record carries the id of leg 1 and \<open>success\<close> is false.
\<close>

theorem execute_arbitrage_compensation:
  assumes np: "side1_price opp \<noteq> 0" "side2_price opp \<noteq> 0"
              "side1_price opp + side2_price opp \<noteq> 0"
    and s1: "s1 = bankroll ex * side1_price opp / (side1_price opp + side2_price opp)"
    and s2: "s2 = bankroll ex * side2_price opp / (side1_price opp + side2_price opp)"
    and a1: "a1 = \<lparr>oa_token_id = side1_token_id opp, oa_price = side1_price opp,
                    oa_size = s1 / side1_price opp, oa_side = ''BUY'', oa_order_type = ''GTC''\<rparr>"
    and a2: "a2 = \<lparr>oa_token_id = side2_token_id opp, oa_price = side2_price opp,
                    oa_size = s2 / side2_price opp, oa_side = ''BUY'', oa_order_type = ''GTC''\<rparr>"
    and l1: "place_order ex (side1_token_id opp) ''BUY'' (side1_price opp) (s1 / side1_price opp)
               = (o1, ex1)"
    and l2: "place_order ex1 (side2_token_id opp) ''BUY'' (side2_price opp) (s2 / side2_price opp)
               = (o2, ex2)"
  shows "\<exists>r ex'. execute_arbitrage ex opp now = Inr (r, ex')
           \<and> (\<not> success r \<longrightarrow> error r \<noteq> None)
           \<and> (\<not> truthy o1 \<longrightarrow>
                 order1_id r = o1 \<and> order2_id r = None \<and> \<not> success r
                 \<and> error r = Some ''Failed to place order 1''
                 \<and> client_calls ex' =
                     client_calls ex @ (if client ex = None then [] else [CreateOrder a1]))
           \<and> (truthy o1 \<and> \<not> truthy o2 \<longrightarrow>
                 order1_id r = o1 \<and> order2_id r = o2 \<and> \<not> success r
                 \<and> error r = Some ''Failed to place order 2''
                 \<and> client_calls ex' =
                     client_calls ex @ [CreateOrder a1, CreateOrder a2, CancelOrder (the o1)])
           \<and> (truthy o1 \<and> truthy o2 \<longrightarrow>
                 order1_id r = o1 \<and> order2_id r = o2 \<and> success r \<and> error r = None
                 \<and> client_calls ex' = client_calls ex @ [CreateOrder a1, CreateOrder a2])"
proof -
  let ?profit = "(s1 / side1_price opp - (s1 + s2) + (s2 / side2_price opp - (s1 + s2))) / 2"
  have cs: "calculate_stakes (side1_price opp) (side2_price opp) (bankroll ex) = Inr (s1, s2)"
    using calculate_stakes_defined[OF np(3)] s1 s2 by simp
  have cp: "calculate_profit (side1_price opp) (side2_price opp) s1 s2 = Inr ?profit"
    by (rule calculate_profit_defined[OF np(1,2)])
  note f1 = place_order_fields[OF l1, folded a1]
  note f2 = place_order_fields[OF l2, folded a2]
  consider (leg1) "\<not> truthy o1" | (leg2) "truthy o1" "\<not> truthy o2" | (both) "truthy o1" "truthy o2"
    by blast
  then show ?thesis
  proof cases
    case leg1
    let ?r = "\<lparr>opportunity = opp, exec_bankroll = bankroll (failed ex1), stake1 = s1, stake2 = s2,
              order1_id = o1, order2_id = None, success = False,
              error = Some ''Failed to place order 1'', exec_timestamp = now\<rparr>"
    have "execute_arbitrage ex opp now =
            Inr (?r, (failed ex1)\<lparr>executions := executions (failed ex1) @ [?r]\<rparr>)"
      by (rule execute_arbitrage_unfold[OF cs cp place_legs_leg1_fails[OF np(1) l1 leg1] refl])
    moreover have "client_calls ((failed ex1)\<lparr>executions := executions (failed ex1) @ [?r]\<rparr>)
                   = client_calls ex @ (if client ex = None then [] else [CreateOrder a1])"
      using f1 by (simp add: client_calls_def failed_def)
    ultimately show ?thesis using leg1 by simp
  next
    case leg2
    have c: "client ex \<noteq> None"
      by (rule place_order_truthy_client[OF l1 leg2(1)])
    then have c1: "client ex1 \<noteq> None" using f1 by simp
    then have c2: "client ex2 \<noteq> None" using f2 by simp
    let ?e = "failed (cancel_order1 ex2 (the o1))"
    let ?r = "\<lparr>opportunity = opp, exec_bankroll = bankroll ?e, stake1 = s1, stake2 = s2,
              order1_id = o1, order2_id = o2, success = False,
              error = Some ''Failed to place order 2'', exec_timestamp = now\<rparr>"
    have "execute_arbitrage ex opp now = Inr (?r, ?e\<lparr>executions := executions ?e @ [?r]\<rparr>)"
      by (rule execute_arbitrage_unfold[OF cs cp
            place_legs_leg2_fails[OF np(1,2) l1 leg2(1) l2 leg2(2)] refl])
    moreover have "client_calls (?e\<lparr>executions := executions ?e @ [?r]\<rparr>)
                   = client_calls ex @ [CreateOrder a1, CreateOrder a2, CancelOrder (the o1)]"
    proof -
      have "client_calls (?e\<lparr>executions := executions ?e @ [?r]\<rparr>)
              = client_calls (cancel_order1 ex2 (the o1))"
        by (simp add: client_calls_def failed_def)
      also have "\<dots> = client_calls ex2 @ [CancelOrder (the o1)]"
        using cancel_order1_fields[of ex2 "the o1"] c2 by simp
      also have "\<dots> = client_calls ex @ [CreateOrder a1, CreateOrder a2, CancelOrder (the o1)]"
        using f1 f2 c c1 by simp
      finally show ?thesis .
    qed
    ultimately show ?thesis using leg2 by simp
  next
    case both
    have c: "client ex \<noteq> None"
      by (rule place_order_truthy_client[OF l1 both(1)])
    then have c1: "client ex1 \<noteq> None" using f1 by simp
    let ?e = "ex2\<lparr>successful_trades := successful_trades ex2 + 1,
                    total_profit := total_profit ex2 + ?profit\<rparr>"
    let ?r = "\<lparr>opportunity = opp, exec_bankroll = bankroll ?e, stake1 = s1, stake2 = s2,
              order1_id = o1, order2_id = o2, success = True,
              error = None, exec_timestamp = now\<rparr>"
    have "execute_arbitrage ex opp now = Inr (?r, ?e\<lparr>executions := executions ?e @ [?r]\<rparr>)"
      by (rule execute_arbitrage_unfold[OF cs cp
            place_legs_both[OF np(1,2) l1 both(1) l2 both(2)] refl])
    moreover have "client_calls (?e\<lparr>executions := executions ?e @ [?r]\<rparr>)
                   = client_calls ex @ [CreateOrder a1, CreateOrder a2]"
      using f1 f2 c c1 by (simp add: client_calls_def)
    ultimately show ?thesis using both by simp
  qed
qed


theorem execute_arbitrage_compensation_witness:
  "(\<exists>r ex'. execute_arbitrage (init_executor (client_with rejecting) ''0x00'' 100 1 True 137)
              (demo_opportunity (49/100) (48/100)) 0 = Inr (r, ex')
          \<and> order1_id r = None \<and> order2_id r = None \<and> \<not> success r
          \<and> error r = Some ''Failed to place order 1''
          \<and> client_calls ex' =
               [CreateOrder \<lparr>oa_token_id = ''tok-1'', oa_price = 49/100, oa_size = 10000/97,
                              oa_side = ''BUY'', oa_order_type = ''GTC''\<rparr>])
   \<and> (\<exists>r ex'. execute_arbitrage (init_executor (client_with first_leg_only) ''0x00'' 100 1 True 137)
              (demo_opportunity (49/100) (48/100)) 0 = Inr (r, ex')
          \<and> order1_id r = Some ''order-1'' \<and> order2_id r = None \<and> \<not> success r
          \<and> error r = Some ''Failed to place order 2''
          \<and> client_calls ex' =
               [CreateOrder \<lparr>oa_token_id = ''tok-1'', oa_price = 49/100, oa_size = 10000/97,
                              oa_side = ''BUY'', oa_order_type = ''GTC''\<rparr>,
                CreateOrder \<lparr>oa_token_id = ''tok-2'', oa_price = 48/100, oa_size = 10000/97,
                              oa_side = ''BUY'', oa_order_type = ''GTC''\<rparr>,
                CancelOrder ''order-1''])"
proof -
  let ?O = "demo_opportunity (49/100) (48/100)"
  have np: "side1_price ?O \<noteq> 0" "side2_price ?O \<noteq> 0" "side1_price ?O + side2_price ?O \<noteq> 0"
    by (simp_all add: demo_opportunity_def)
  have sp: "p = (fst p, snd p)" for p :: "string option \<times> ArbitrageExecutor"
    by simp
  note A = execute_arbitrage_compensation[OF np refl refl refl refl sp sp,
             of "init_executor (client_with rejecting) ''0x00'' 100 1 True 137" 0]
  note B = execute_arbitrage_compensation[OF np refl refl refl refl sp sp,
             of "init_executor (client_with first_leg_only) ''0x00'' 100 1 True 137" 0]
  have a: "\<exists>r ex'. execute_arbitrage (init_executor (client_with rejecting) ''0x00'' 100 1 True 137)
              (demo_opportunity (49/100) (48/100)) 0 = Inr (r, ex')
          \<and> order1_id r = None \<and> order2_id r = None \<and> \<not> success r
          \<and> error r = Some ''Failed to place order 1''
          \<and> client_calls ex' =
               [CreateOrder \<lparr>oa_token_id = ''tok-1'', oa_price = 49/100, oa_size = 10000/97,
                              oa_side = ''BUY'', oa_order_type = ''GTC''\<rparr>]"
    using A
    by (simp add: init_executor_def client_with_def rejecting_def demo_opportunity_def
          place_order_def invoke_def client_calls_def) blast
  have b: "\<exists>r ex'. execute_arbitrage (init_executor (client_with first_leg_only) ''0x00'' 100 1 True 137)
              (demo_opportunity (49/100) (48/100)) 0 = Inr (r, ex')
          \<and> order1_id r = Some ''order-1'' \<and> order2_id r = None \<and> \<not> success r
          \<and> error r = Some ''Failed to place order 2''
          \<and> client_calls ex' =
               [CreateOrder \<lparr>oa_token_id = ''tok-1'', oa_price = 49/100, oa_size = 10000/97,
                              oa_side = ''BUY'', oa_order_type = ''GTC''\<rparr>,
                CreateOrder \<lparr>oa_token_id = ''tok-2'', oa_price = 48/100, oa_size = 10000/97,
                              oa_side = ''BUY'', oa_order_type = ''GTC''\<rparr>,
                CancelOrder ''order-1'']"
    using B
    by (simp add: init_executor_def client_with_def first_leg_only_def demo_opportunity_def
          place_order_def invoke_def client_calls_def) blast
  from a b show ?thesis by (rule conjI)
qed

text \<open>A first leg priced \<open>0\<close>: the call raises and returns no execution record.\<close>

theorem execute_arbitrage_zero_price_raises:
  "execute_arbitrage (init_executor (client_with accepting) ''0x00'' 100 1 True 137)
     (demo_opportunity 0 (1/2)) 0 = Inl ZeroDivisionError"
  by (simp add: execute_arbitrage_def calculate_stakes_def calculate_profit_def
        demo_opportunity_def init_executor_def Let_def)

section \<open>Bookkeeping of the execution engine\<close>

lemma place_legs_fields:
  assumes "place_legs ex opp s1 s2 profit = ((o1, o2, ok, err), ex')"
  shows "executions ex' = executions ex"
    and "(client ex' = None) = (client ex = None)"
    and "bankroll ex' = bankroll ex"
    and "if ok then successful_trades ex' = successful_trades ex + 1
                   \<and> failed_trades ex' = failed_trades ex
         else failed_trades ex' = failed_trades ex + 1
              \<and> successful_trades ex' = successful_trades ex"
    and "ok = (truthy o1 \<and> truthy o2)"
    and "o2 \<noteq> None \<longrightarrow> truthy o1"
    and "\<not> ok \<longrightarrow> err \<noteq> None"
  using assms
  by (auto simp: place_legs_def Let_def failed_def
           split: prod.splits if_splits
           dest!: place_order_fields
           simp: cancel_order1_fields)


lemma place_legs_no_client:
  assumes "client ex = None" "side1_price opp \<noteq> 0"
  shows "place_legs ex opp s1 s2 profit =
           ((None, None, False, Some ''Failed to place order 1''), failed ex)"
  using assms by (simp add: place_legs_def place_order_no_client)

lemma execute_arbitrage_fields:
  assumes "execute_arbitrage ex opp now = Inr (r, ex')"
  shows "executions ex' = executions ex @ [r]"
    and "(client ex' = None) = (client ex = None)"
    and "if success r then successful_trades ex' = successful_trades ex + 1
                          \<and> failed_trades ex' = failed_trades ex
         else failed_trades ex' = failed_trades ex + 1
              \<and> successful_trades ex' = successful_trades ex"
    and "success r = (truthy (order1_id r) \<and> truthy (order2_id r))"
    and "order2_id r \<noteq> None \<longrightarrow> truthy (order1_id r)"
proof -
  from assms obtain s1 s2 profit o1 o2 ok err e where
    pl: "place_legs ex opp s1 s2 profit = ((o1, o2, ok, err), e)"
    and r: "r = \<lparr>opportunity = opp, exec_bankroll = bankroll e, stake1 = s1, stake2 = s2,
                  order1_id = o1, order2_id = o2, success = ok, error = err,
                  exec_timestamp = now\<rparr>"
    and e: "ex' = e\<lparr>executions := executions e @ [r]\<rparr>"
    by (auto simp: execute_arbitrage_def Let_def split: sum.splits prod.splits)
  note f = place_legs_fields[OF pl]
  show "executions ex' = executions ex @ [r]" using e f(1) by simp
  show "(client ex' = None) = (client ex = None)" using e f(2) by simp
  show "if success r then successful_trades ex' = successful_trades ex + 1
                          \<and> failed_trades ex' = failed_trades ex
         else failed_trades ex' = failed_trades ex + 1
              \<and> successful_trades ex' = successful_trades ex"
    using e r f(4) by simp
  show "success r = (truthy (order1_id r) \<and> truthy (order2_id r))" using r f(5) by simp
  show "order2_id r \<noteq> None \<longrightarrow> truthy (order1_id r)" using r f(6) by simp
qed

lemma execute_all_client_none:
  "client ex = None \<Longrightarrow> client (execute_all ex cs) = None"
proof (induction cs arbitrary: ex)
  case Nil
  then show ?case by simp
next
  case (Cons c cs)
  obtain opp now where c: "c = (opp, now)" by (cases c)
  show ?case
  proof (cases "execute_arbitrage ex opp now")
    case (Inl e)
    then show ?thesis using Cons c by simp
  next
    case (Inr p)
    obtain r ex' where p: "p = (r, ex')" by (cases p)
    have "client ex' = None"
      using execute_arbitrage_fields(2)[of ex opp now r ex'] Inr p Cons.prems by simp
    then show ?thesis using Cons.IH[of ex'] Inr p c by simp
  qed
qed

lemma execute_arbitrage_balanced:
  assumes "execute_arbitrage ex opp now = Inr (r, ex')" "books_balanced ex"
  shows "books_balanced ex'"
  using execute_arbitrage_fields[OF assms(1)] assms(2)
  by (auto simp: books_balanced_def split: if_splits)

lemma execute_all_balanced:
  "books_balanced ex \<Longrightarrow> books_balanced (execute_all ex cs)"
proof (induction cs arbitrary: ex)
  case Nil
  then show ?case by simp
next
  case (Cons c cs)
  obtain opp now where c: "c = (opp, now)" by (cases c)
  show ?case
  proof (cases "execute_arbitrage ex opp now")
    case (Inl e)
    then show ?thesis using Cons c by simp
  next
    case (Inr p)
    obtain r ex' where p: "p = (r, ex')" by (cases p)
    have "books_balanced ex'"
      using execute_arbitrage_balanced[of ex opp now r ex'] Inr p Cons.prems by simp
    then show ?thesis using Cons.IH[of ex'] Inr p c by simp
  qed
qed

lemma init_executor_balanced: "books_balanced (init_executor mk key br mp auto cid)"
  by (simp add: books_balanced_def init_executor_def)

lemma execute_arbitrage_defined:
  assumes "side1_price opp \<noteq> 0" "side2_price opp \<noteq> 0" "side1_price opp + side2_price opp \<noteq> 0"
  shows "\<exists>r ex'. execute_arbitrage ex opp now = Inr (r, ex')"
  using assms
  by (simp add: execute_arbitrage_def calculate_stakes_defined calculate_profit_defined
        Let_def split: prod.splits)

text \<open>
  Claim C8 (initialisation failure), as amended: when the constructor of the trading client
  raises, \<^verbatim>\<open>__init__\<close> leaves the executor without a client, and it stays without one after
  any sequence of calls of \<^verbatim>\<open>execute_arbitrage\<close>. Every later call whose opportunity has
  non-zero leg prices with a non-zero sum returns a failed execution record:
  \<open>success\<close> is false, both order ids are \<^verbatim>\<open>None\<close>, the error text is that of the first leg,
  and no call reaches a client. (A later call with a leg price \<open>0\<close>, or leg prices adding up to
  \<open>0\<close>, raises \<^verbatim>\<open>ZeroDivisionError\<close> instead of returning.)
\<close>

theorem init_failure_disables:
  assumes ctor: "mk_client ''https://clob.polymarket.com'' key cid = Inl e"
  shows "client (init_executor mk_client key br mp auto cid) = None
     \<and> client (execute_all (init_executor mk_client key br mp auto cid) past) = None
     \<and> (side1_price opp \<noteq> 0 \<and> side2_price opp \<noteq> 0
          \<and> side1_price opp + side2_price opp \<noteq> 0 \<longrightarrow>
          (\<exists>r ex'. execute_arbitrage
                      (execute_all (init_executor mk_client key br mp auto cid) past) opp now
                     = Inr (r, ex')
             \<and> \<not> success r \<and> order1_id r = None \<and> order2_id r = None
             \<and> error r = Some ''Failed to place order 1''
             \<and> client ex' = None \<and> client_calls ex' = []))"
proof -
  let ?init = "init_executor mk_client key br mp auto cid"
  let ?ex = "execute_all ?init past"
  have c0: "client ?init = None"
    using ctor by (simp add: init_executor_def)
  have c: "client ?ex = None"
    by (rule execute_all_client_none[OF c0])
  have call: "\<exists>r ex'. execute_arbitrage ?ex opp now = Inr (r, ex')
             \<and> \<not> success r \<and> order1_id r = None \<and> order2_id r = None
             \<and> error r = Some ''Failed to place order 1''
             \<and> client ex' = None \<and> client_calls ex' = []"
    if np: "side1_price opp \<noteq> 0" "side2_price opp \<noteq> 0"
           "side1_price opp + side2_price opp \<noteq> 0"
  proof -
    let ?s1 = "bankroll ?ex * side1_price opp / (side1_price opp + side2_price opp)"
    let ?s2 = "bankroll ?ex * side2_price opp / (side1_price opp + side2_price opp)"
    let ?r = "\<lparr>opportunity = opp, exec_bankroll = bankroll (failed ?ex), stake1 = ?s1,
               stake2 = ?s2, order1_id = None, order2_id = None, success = False,
               error = Some ''Failed to place order 1'', exec_timestamp = now\<rparr>"
    have "execute_arbitrage ?ex opp now =
            Inr (?r, (failed ?ex)\<lparr>executions := executions (failed ?ex) @ [?r]\<rparr>)"
      by (rule execute_arbitrage_unfold[OF calculate_stakes_defined[OF np(3)]
                 calculate_profit_defined[OF np(1,2)] place_legs_no_client[OF c np(1)] refl])
    moreover have "client ((failed ?ex)\<lparr>executions := executions (failed ?ex) @ [?r]\<rparr>) = None"
      using c by (simp add: failed_def)
    ultimately show ?thesis by (simp add: client_calls_def)
  qed
  from call have "side1_price opp \<noteq> 0 \<and> side2_price opp \<noteq> 0
          \<and> side1_price opp + side2_price opp \<noteq> 0 \<longrightarrow>
          (\<exists>r ex'. execute_arbitrage ?ex opp now = Inr (r, ex')
             \<and> \<not> success r \<and> order1_id r = None \<and> order2_id r = None
             \<and> error r = Some ''Failed to place order 1''
             \<and> client ex' = None \<and> client_calls ex' = [])"
    by (intro impI) (elim conjE)
  with c0 c show ?thesis by (intro conjI)
qed

theorem init_failure_disables_witness:
  "client (init_executor no_client ''0x00'' 100 1 True 137) = None
   \<and> (\<exists>r ex'. execute_arbitrage
              (execute_all (init_executor no_client ''0x00'' 100 1 True 137)
                 [(demo_opportunity (41/100) (54/100), 0)])
              (demo_opportunity (49/100) (48/100)) 1 = Inr (r, ex')
          \<and> \<not> success r \<and> order1_id r = None \<and> order2_id r = None
          \<and> error r = Some ''Failed to place order 1''
          \<and> client ex' = None \<and> client_calls ex' = [])"
  using init_failure_disables[of no_client "''0x00''" 137 "Exception ''client construction failed''"
          100 1 True "[(demo_opportunity (41/100) (54/100), 0)]"
          "demo_opportunity (49/100) (48/100)" 1]
  by (simp add: no_client_def demo_opportunity_def)

text \<open>A disabled engine and a second leg priced \<open>0\<close>: the call raises.\<close>

theorem disabled_engine_zero_price_raises:
  "execute_arbitrage (init_executor no_client ''0x00'' 100 1 True 137)
     (demo_opportunity (1/2) 0) 0 = Inl ZeroDivisionError"
  by (simp add: execute_arbitrage_def calculate_stakes_def calculate_profit_def
        demo_opportunity_def init_executor_def Let_def)

text \<open>
  Claim C9 (execution bookkeeping), as amended: a call of \<^verbatim>\<open>execute_arbitrage\<close> with
  non-zero leg prices and a non-zero price sum returns; every call that returns appends
  exactly one record to \<open>executions\<close> and increments exactly one of the two counters, the
  one that matches \<open>success\<close>; in that record \<open>success\<close> holds exactly when both order ids
  are present (not \<^verbatim>\<open>None\<close> and not empty, the test the code applies), and a second id
  other than \<^verbatim>\<open>None\<close> comes with a first id that is present. After any sequence of calls on
  a freshly initialised executor, \<open>successful_trades + failed_trades\<close> is the number of
  logged executions, also as reported by \<^verbatim>\<open>get_stats\<close>, and every logged record has the two
  properties. (A call that raises appends nothing and changes no counter.)
\<close>

theorem execution_bookkeeping:
  "(side1_price opp \<noteq> 0 \<and> side2_price opp \<noteq> 0 \<and> side1_price opp + side2_price opp \<noteq> 0
      \<longrightarrow> (\<exists>r ex'. execute_arbitrage ex opp now = Inr (r, ex')))
   \<and> (\<forall>r ex'. execute_arbitrage ex opp now = Inr (r, ex') \<longrightarrow>
          executions ex' = executions ex @ [r]
          \<and> (if success r
               then successful_trades ex' = successful_trades ex + 1
                    \<and> failed_trades ex' = failed_trades ex
               else failed_trades ex' = failed_trades ex + 1
                    \<and> successful_trades ex' = successful_trades ex)
          \<and> success r = (truthy (order1_id r) \<and> truthy (order2_id r))
          \<and> (order2_id r \<noteq> None \<longrightarrow> truthy (order1_id r)))
   \<and> (let exn = execute_all (init_executor mk key br mp auto cid) past in
          successful_trades exn + failed_trades exn = int (length (executions exn))
          \<and> st_successful_trades (get_stats exn) + st_failed_trades (get_stats exn)
              = st_total_executions (get_stats exn)
          \<and> (\<forall>r \<in> set (executions exn).
                success r = (truthy (order1_id r) \<and> truthy (order2_id r))
                \<and> (order2_id r \<noteq> None \<longrightarrow> truthy (order1_id r))))"
proof -
  let ?exn = "execute_all (init_executor mk key br mp auto cid) past"
  have a: "side1_price opp \<noteq> 0 \<and> side2_price opp \<noteq> 0
             \<and> side1_price opp + side2_price opp \<noteq> 0
      \<longrightarrow> (\<exists>r ex'. execute_arbitrage ex opp now = Inr (r, ex'))"
  proof
    assume "side1_price opp \<noteq> 0 \<and> side2_price opp \<noteq> 0
             \<and> side1_price opp + side2_price opp \<noteq> 0"
    then show "\<exists>r ex'. execute_arbitrage ex opp now = Inr (r, ex')"
      by (intro execute_arbitrage_defined) simp_all
  qed
  have b: "\<forall>r ex'. execute_arbitrage ex opp now = Inr (r, ex') \<longrightarrow>
          executions ex' = executions ex @ [r]
          \<and> (if success r
               then successful_trades ex' = successful_trades ex + 1
                    \<and> failed_trades ex' = failed_trades ex
               else failed_trades ex' = failed_trades ex + 1
                    \<and> successful_trades ex' = successful_trades ex)
          \<and> success r = (truthy (order1_id r) \<and> truthy (order2_id r))
          \<and> (order2_id r \<noteq> None \<longrightarrow> truthy (order1_id r))"
  proof (intro allI impI)
    fix r ex'
    assume h: "execute_arbitrage ex opp now = Inr (r, ex')"
    note f = execute_arbitrage_fields[OF h]
    from f(1) f(3) f(4) f(5)
    show "executions ex' = executions ex @ [r]
          \<and> (if success r
               then successful_trades ex' = successful_trades ex + 1
                    \<and> failed_trades ex' = failed_trades ex
               else failed_trades ex' = failed_trades ex + 1
                    \<and> successful_trades ex' = successful_trades ex)
          \<and> success r = (truthy (order1_id r) \<and> truthy (order2_id r))
          \<and> (order2_id r \<noteq> None \<longrightarrow> truthy (order1_id r))"
      by (intro conjI)
  qed
  have bb: "books_balanced ?exn"
    by (rule execute_all_balanced[OF init_executor_balanced])
  then have c1: "successful_trades ?exn + failed_trades ?exn = int (length (executions ?exn))"
    by (simp add: books_balanced_def)
  then have c2: "st_successful_trades (get_stats ?exn) + st_failed_trades (get_stats ?exn)
              = st_total_executions (get_stats ?exn)"
    by (simp add: get_stats_def)
  from bb have c3: "\<forall>r \<in> set (executions ?exn).
                success r = (truthy (order1_id r) \<and> truthy (order2_id r))
                \<and> (order2_id r \<noteq> None \<longrightarrow> truthy (order1_id r))"
    by (simp add: books_balanced_def list_all_iff)
  from c1 c2 c3 have c: "let exn = ?exn in
          successful_trades exn + failed_trades exn = int (length (executions exn))
          \<and> st_successful_trades (get_stats exn) + st_failed_trades (get_stats exn)
              = st_total_executions (get_stats exn)
          \<and> (\<forall>r \<in> set (executions exn).
                success r = (truthy (order1_id r) \<and> truthy (order2_id r))
                \<and> (order2_id r \<noteq> None \<longrightarrow> truthy (order1_id r)))"
    unfolding Let_def by (intro conjI)
  from a b c show ?thesis by (intro conjI)
qed


theorem execution_bookkeeping_witness:
  "\<exists>r ex'.
      execute_arbitrage (init_executor (client_with accepting) ''0x00'' 100 1 True 137)
        (demo_opportunity (49/100) (48/100)) 0 = Inr (r, ex')
      \<and> execute_all (init_executor (client_with accepting) ''0x00'' 100 1 True 137)
            [(demo_opportunity (49/100) (48/100), 0)] = ex'
      \<and> executions ex' = [r]
      \<and> (if success r then successful_trades ex' = 1 \<and> failed_trades ex' = 0
           else failed_trades ex' = 1 \<and> successful_trades ex' = 0)
      \<and> successful_trades ex' + failed_trades ex' = int (length (executions ex'))
      \<and> st_successful_trades (get_stats ex') + st_failed_trades (get_stats ex')
          = st_total_executions (get_stats ex')
      \<and> success r = (truthy (order1_id r) \<and> truthy (order2_id r))"
proof -
  let ?E = "init_executor (client_with accepting) ''0x00'' 100 1 True 137"
  let ?O = "demo_opportunity (49/100) (48/100)"
  note T = execution_bookkeeping[where opp = ?O and ex = ?E and now = 0
             and mk = "client_with accepting" and key = "''0x00''" and br = 100 and mp = 1
             and auto = True and cid = 137 and past = "[(?O, 0)]"]
  have np: "side1_price ?O \<noteq> 0 \<and> side2_price ?O \<noteq> 0
            \<and> side1_price ?O + side2_price ?O \<noteq> 0"
    by (simp add: demo_opportunity_def)
  from T np obtain r ex' where h: "execute_arbitrage ?E ?O 0 = Inr (r, ex')"
    by blast
  from T h have f: "executions ex' = executions ?E @ [r]"
      "if success r
       then successful_trades ex' = successful_trades ?E + 1 \<and> failed_trades ex' = failed_trades ?E
       else failed_trades ex' = failed_trades ?E + 1 \<and> successful_trades ex' = successful_trades ?E"
      "success r = (truthy (order1_id r) \<and> truthy (order2_id r))"
    by blast+
  have run: "execute_all ?E [(?O, 0)] = ex'"
    using h by simp
  from T have g: "successful_trades (execute_all ?E [(?O, 0)])
                    + failed_trades (execute_all ?E [(?O, 0)])
                  = int (length (executions (execute_all ?E [(?O, 0)])))"
      "st_successful_trades (get_stats (execute_all ?E [(?O, 0)]))
         + st_failed_trades (get_stats (execute_all ?E [(?O, 0)]))
       = st_total_executions (get_stats (execute_all ?E [(?O, 0)]))"
    unfolding Let_def by blast+
  have e0: "executions ?E = []" "successful_trades ?E = 0" "failed_trades ?E = 0"
    by (simp_all add: init_executor_def)
  show ?thesis
    using h run f g unfolding e0 by (intro exI[of _ r] exI[of _ ex']) simp
qed

text \<open>Both legs priced \<open>0\<close>: the call raises, and the log stays empty.\<close>

theorem execute_arbitrage_zero_prices_logs_nothing:
  "execute_arbitrage (init_executor (client_with accepting) ''0x00'' 100 1 True 137)
     (demo_opportunity 0 0) 0 = Inl ZeroDivisionError
   \<and> executions (execute_all (init_executor (client_with accepting) ''0x00'' 100 1 True 137)
        [(demo_opportunity 0 0, 0)]) = []"
  by (simp add: execute_arbitrage_def calculate_stakes_def calculate_profit_def
        demo_opportunity_def init_executor_def Let_def)

section \<open>The detection pass leaves the store alone\<close>

lemma same_store_refl: "same_store st st"
  by (simp add: same_store_def)

lemma same_store_trans: "same_store a b \<Longrightarrow> same_store b c \<Longrightarrow> same_store a c"
  by (simp add: same_store_def)

lemma monitor_execute_arbitrage_store:
  "same_store st (monitor_execute_arbitrage st ev mt n1 p1 m1 n2 p2 m2 tot now)"
  by (simp add: monitor_execute_arbitrage_def same_store_def Let_def
           split: option.splits sum.splits prod.splits)

lemma scan_pair_store: "same_store st (snd (scan_pair st ev mt outs now))"
proof -
  have m: "same_store (st\<lparr>total_records := tr, last_totals := lt, best_matches := bm\<rparr>)
             (monitor_execute_arbitrage (st\<lparr>total_records := tr, last_totals := lt,
                best_matches := bm\<rparr>) ev mt n1 p1 m1 n2 p2 m2 tot now)"
    for tr lt bm n1 p1 m1 n2 p2 m2 tot
    by (rule monitor_execute_arbitrage_store)
  show ?thesis
    using m
    by (simp add: scan_pair_def Let_def same_store_def
           split: option.splits sum.splits)
qed

lemma scan_types_store: "same_store st (snd (scan_types st ev mts now))"
proof (induction mts arbitrary: st)
  case Nil
  show ?case by (simp add: same_store_refl)
next
  case (Cons g mts)
  obtain mt outs where g: "g = (mt, outs)" by (cases g)
  obtain e st' where p: "scan_pair st ev mt outs now = (e, st')" by (cases "scan_pair st ev mt outs now")
  have s1: "same_store st st'" using scan_pair_store[of st ev mt outs now] p by simp
  show ?case
  proof (cases e)
    case None
    then show ?thesis
      using p g s1 Cons.IH[of st'] by (auto intro: same_store_trans)
  next
    case (Some x)
    then show ?thesis using p g s1 by simp
  qed
qed

lemma scan_events_store: "same_store st (snd (scan_events st evs now))"
proof (induction evs arbitrary: st)
  case Nil
  show ?case by (simp add: same_store_refl)
next
  case (Cons g evs)
  obtain ev mts where g: "g = (ev, mts)" by (cases g)
  obtain e st' where p: "scan_types st ev mts now = (e, st')" by (cases "scan_types st ev mts now")
  have s1: "same_store st st'" using scan_types_store[of st ev mts now] p by simp
  show ?case
  proof (cases e)
    case None
    then show ?thesis
      using p g s1 Cons.IH[of st'] by (auto intro: same_store_trans)
  next
    case (Some x)
    then show ?thesis using p g s1 by simp
  qed
qed

lemma check_best_matches_store: "same_store st (check_best_matches st now)"
  by (simp add: check_best_matches_def scan_events_store)

section \<open>Best prices of an order book\<close>

lemma min_from_defined:
  "\<forall>x \<in> set xs. entry_price x \<noteq> None \<Longrightarrow> \<exists>m. min_from best k xs = Some m"
  by (induction xs arbitrary: best k) auto

lemma min_from_first_min:
  assumes "min_from best k xs = Some m" "entry_price best = Some k"
  shows "\<exists>km. entry_price m = Some km \<and> km \<le> k
            \<and> (\<forall>x \<in> set xs. \<exists>kx. entry_price x = Some kx \<and> km \<le> kx)
            \<and> (if km = k then m = best
                else find (\<lambda>a. entry_price a = Some km) xs = Some m)"
  using assms
proof (induction xs arbitrary: best k)
  case Nil
  then show ?case by simp
next
  case (Cons x xs)
  from Cons.prems(1) obtain kx where kx: "entry_price x = Some kx"
    by (cases "entry_price x") auto
  show ?case
  proof (cases "kx < k")
    case True
    then have r: "min_from x kx xs = Some m" using Cons.prems(1) kx by simp
    from Cons.IH[OF r kx] obtain km where
      km: "entry_price m = Some km" "km \<le> kx"
          "\<forall>y \<in> set xs. \<exists>ky. entry_price y = Some ky \<and> km \<le> ky"
          "if km = kx then m = x else find (\<lambda>a. entry_price a = Some km) xs = Some m"
      by blast
    have "km \<noteq> k" using km(2) True by simp
    moreover have "find (\<lambda>a. entry_price a = Some km) (x # xs) = Some m"
      using km(4) kx by (auto split: if_splits)
    ultimately show ?thesis using km kx True by auto
  next
    case False
    then have r: "min_from best k xs = Some m" using Cons.prems(1) kx by simp
    from Cons.IH[OF r Cons.prems(2)] obtain km where
      km: "entry_price m = Some km" "km \<le> k"
          "\<forall>y \<in> set xs. \<exists>ky. entry_price y = Some ky \<and> km \<le> ky"
          "if km = k then m = best else find (\<lambda>a. entry_price a = Some km) xs = Some m"
      by blast
    have "km \<noteq> k \<Longrightarrow> find (\<lambda>a. entry_price a = Some km) (x # xs) = Some m"
      using km(2,4) kx False by auto
    then show ?thesis using km kx False by auto
  qed
qed

lemma min_by_price_first_min:
  assumes "min_by_price as = Some m"
  shows "\<exists>km. entry_price m = Some km
            \<and> (\<forall>x \<in> set as. \<exists>kx. entry_price x = Some kx \<and> km \<le> kx)
            \<and> find (\<lambda>a. entry_price a = Some km) as = Some m"
proof (cases as)
  case Nil
  then show ?thesis using assms by simp
next
  case (Cons a rest)
  from assms Cons obtain k where k: "entry_price a = Some k" and r: "min_from a k rest = Some m"
    by (cases "entry_price a") auto
  from min_from_first_min[OF r k] obtain km where
    km: "entry_price m = Some km" "km \<le> k"
        "\<forall>y \<in> set rest. \<exists>ky. entry_price y = Some ky \<and> km \<le> ky"
        "if km = k then m = a else find (\<lambda>a. entry_price a = Some km) rest = Some m"
    by blast
  have "find (\<lambda>a. entry_price a = Some km) (a # rest) = Some m"
    using km(4) k by (auto split: if_splits)
  then show ?thesis using km k Cons by auto
qed

lemma min_by_price_defined:
  "as \<noteq> [] \<Longrightarrow> \<forall>x \<in> set as. entry_price x \<noteq> None \<Longrightarrow> \<exists>m. min_by_price as = Some m"
  by (cases as) (auto simp: min_from_defined)

lemma best_prices_defined:
  assumes "bs \<noteq> []" "as \<noteq> []"
    and "\<forall>x \<in> set as. entry_price x \<noteq> None \<and> entry_size x \<noteq> None"
    and "entry_price (hd bs) \<noteq> None" "entry_size (hd bs) \<noteq> None"
  shows "\<exists>q. best_prices bs as = Some q"
proof -
  from min_by_price_defined[OF assms(2)] assms(3) obtain m where m: "min_by_price as = Some m"
    by blast
  from min_by_price_first_min[OF m] have "m \<in> set as"
    by (auto simp: find_Some_iff)
  then have "entry_price m \<noteq> None" "entry_size m \<noteq> None" using assms(3) by auto
  then show ?thesis
    using m assms(1,4,5) by (cases bs) (auto simp: best_prices_def)
qed

lemma best_prices_result:
  assumes "best_prices bs as = Some (bb, bsz, ba, asz)"
  shows "bs \<noteq> [] \<and> entry_price (hd bs) = Some bb \<and> entry_size (hd bs) = Some bsz
         \<and> (\<forall>x \<in> set as. \<exists>kx. entry_price x = Some kx \<and> ba \<le> kx)
         \<and> (\<exists>m. find (\<lambda>a. entry_price a = Some ba) as = Some m \<and> entry_size m = Some asz)"
proof -
  from assms obtain m where m: "min_by_price as = Some m"
    by (auto simp: best_prices_def split: option.splits)
  from min_by_price_first_min[OF m] obtain km where
    km: "entry_price m = Some km"
        "\<forall>x \<in> set as. \<exists>kx. entry_price x = Some kx \<and> km \<le> kx"
        "find (\<lambda>a. entry_price a = Some km) as = Some m"
    by blast
  from assms m km(1) have "km = ba" "entry_size m = Some asz"
    "bs \<noteq> []" "entry_price (hd bs) = Some bb" "entry_size (hd bs) = Some bsz"
    by (auto simp: best_prices_def split: option.splits list.splits)
  then show ?thesis using km by auto
qed

lemma map_of_dict_set: "map_of (dict_set k v xs) k = Some v"
  by (induction xs) auto

lemma check_ath_current: "current_snapshots (check_ath st m n p s sd now) = current_snapshots st"
  by (simp add: check_ath_def Let_def split: option.splits)

lemma check_atl_current: "current_snapshots (check_atl st m n p s sd now) = current_snapshots st"
  by (simp add: check_atl_def Let_def split: option.splits)

lemma store_snapshot_current:
  "current_snapshots (store_snapshot st snap now)
     = dict_set (market_id snap) snap (current_snapshots st)"
  by (simp add: store_snapshot_def Let_def check_ath_current check_atl_current)

lemma make_snapshot_fields:
  "market_id (make_snapshot now tok mname (bb, bsz, ba, asz)) = tok"
  "best_bid (make_snapshot now tok mname (bb, bsz, ba, asz)) = bb"
  "bid_size (make_snapshot now tok mname (bb, bsz, ba, asz)) = bsz"
  "best_ask (make_snapshot now tok mname (bb, bsz, ba, asz)) = ba"
  "ask_size (make_snapshot now tok mname (bb, bsz, ba, asz)) = asz"
  "snap_timestamp (make_snapshot now tok mname (bb, bsz, ba, asz)) = now"
  "market_name (make_snapshot now tok mname (bb, bsz, ba, asz)) = mname"
  by (simp_all add: make_snapshot_def)

lemma sorted_bids_hd_max:
  assumes "sorted_wrt (\<lambda>x y. the (entry_price y) \<le> the (entry_price x)) bs" "b \<in> set bs"
  shows "the (entry_price b) \<le> the (entry_price (hd bs))"
  using assms by (cases bs) auto

text \<open>
  What the two processing paths make of a book with non-empty lists. A snapshot is produced
  whenever the ask entries and the first bid entry have numeric price and size, and both
  paths store it as the current snapshot of the instrument. The ask side is searched: the
  best ask is the least ask price whatever the order of the list, from the first entry
  that has it. The bid side is not searched: the best bid is taken from \<^verbatim>\<open>bids[0]\<close>, which
  is the highest bid only when the list is ordered highest first.
\<close>

lemma best_prices_of_book:
  assumes ne: "bids data \<noteq> []" "asks data \<noteq> []"
  shows "((\<forall>x \<in> set (asks data). entry_price x \<noteq> None \<and> entry_size x \<noteq> None)
           \<and> entry_price (hd (bids data)) \<noteq> None \<and> entry_size (hd (bids data)) \<noteq> None
          \<longrightarrow> (\<exists>q. best_prices (bids data) (asks data) = Some q))
     \<and> (best_prices (bids data) (asks data) = Some (bb, bsz, ba, asz) \<longrightarrow>
          map_of (current_snapshots (process_orderbook_data st tok mname data now)) tok
            = Some (make_snapshot now tok mname (bb, bsz, ba, asz))
          \<and> (asset_id data = Some tok \<and> tok \<noteq> [] \<longrightarrow>
               map_of (current_snapshots (process_book_message st data now)) tok
                 = Some (make_snapshot now tok
                      (case token_to_market st tok of None \<Rightarrow> ''Unknown'' | Some n \<Rightarrow> n)
                      (bb, bsz, ba, asz)))
          \<and> best_bid (make_snapshot now tok mname (bb, bsz, ba, asz)) = bb
          \<and> entry_price (hd (bids data)) = Some bb \<and> entry_size (hd (bids data)) = Some bsz
          \<and> (sorted_wrt (\<lambda>x y. the (entry_price y) \<le> the (entry_price x)) (bids data)
               \<longrightarrow> (\<forall>b \<in> set (bids data). the (entry_price b) \<le> bb))
          \<and> best_ask (make_snapshot now tok mname (bb, bsz, ba, asz)) = ba
          \<and> (\<forall>x \<in> set (asks data). \<exists>kx. entry_price x = Some kx \<and> ba \<le> kx)
          \<and> (\<exists>m. find (\<lambda>a. entry_price a = Some ba) (asks data) = Some m
                 \<and> entry_size m = Some asz))"
proof (intro conjI impI)
  assume "(\<forall>x \<in> set (asks data). entry_price x \<noteq> None \<and> entry_size x \<noteq> None)
           \<and> entry_price (hd (bids data)) \<noteq> None \<and> entry_size (hd (bids data)) \<noteq> None"
  then show "\<exists>q. best_prices (bids data) (asks data) = Some q"
    using best_prices_defined[OF ne] by blast
next
  assume bp: "best_prices (bids data) (asks data) = Some (bb, bsz, ba, asz)"
  show "map_of (current_snapshots (process_orderbook_data st tok mname data now)) tok
            = Some (make_snapshot now tok mname (bb, bsz, ba, asz))"
    using ne bp
    by (simp add: process_orderbook_data_def store_snapshot_current make_snapshot_fields
          map_of_dict_set)
next
  assume bp: "best_prices (bids data) (asks data) = Some (bb, bsz, ba, asz)"
    and a: "asset_id data = Some tok \<and> tok \<noteq> []"
  let ?n = "case token_to_market st tok of None \<Rightarrow> ''Unknown'' | Some n \<Rightarrow> n"
  let ?snap = "make_snapshot now tok ?n (bb, bsz, ba, asz)"
  have "process_book_message st data now = check_best_matches (store_snapshot st ?snap now) now"
    using ne bp a by (simp add: process_book_message_def Let_def)
  moreover have "current_snapshots (check_best_matches (store_snapshot st ?snap now) now)
                  = current_snapshots (store_snapshot st ?snap now)"
    using check_best_matches_store[of "store_snapshot st ?snap now" now]
    by (simp add: same_store_def)
  ultimately show "map_of (current_snapshots (process_book_message st data now)) tok = Some ?snap"
    by (simp add: store_snapshot_current make_snapshot_fields map_of_dict_set)
next
  show "best_bid (make_snapshot now tok mname (bb, bsz, ba, asz)) = bb"
    by (simp add: make_snapshot_fields)
next
  assume bp: "best_prices (bids data) (asks data) = Some (bb, bsz, ba, asz)"
  from best_prices_result[OF bp]
  show "entry_price (hd (bids data)) = Some bb" and "entry_size (hd (bids data)) = Some bsz"
    and "\<forall>x \<in> set (asks data). \<exists>kx. entry_price x = Some kx \<and> ba \<le> kx"
    and "\<exists>m. find (\<lambda>a. entry_price a = Some ba) (asks data) = Some m \<and> entry_size m = Some asz"
    by blast+
next
  assume bp: "best_prices (bids data) (asks data) = Some (bb, bsz, ba, asz)"
    and s: "sorted_wrt (\<lambda>x y. the (entry_price y) \<le> the (entry_price x)) (bids data)"
  from best_prices_result[OF bp] have h: "entry_price (hd (bids data)) = Some bb" by blast
  show "\<forall>b \<in> set (bids data). the (entry_price b) \<le> bb"
    using sorted_bids_hd_max[OF s] h by simp
next
  show "best_ask (make_snapshot now tok mname (bb, bsz, ba, asz)) = ba"
    by (simp add: make_snapshot_fields)
qed

text \<open>
  Claim C4 (best-price extraction): the best bid of the snapshot is to be the
  highest-priced entry of the bid list and the best ask the minimum-priced entry of the
  ask list, for lists in any order. The ask half holds (lemma above). The bid half fails
  on the code: on the bid list \<open>[0.40, 0.45]\<close> the snapshot that
  \<^verbatim>\<open>process_orderbook_data\<close> stores has the best bid \<open>0.40\<close>, the first entry, although the
  list holds a bid at \<open>0.45\<close>. The code's own comments (\<^verbatim>\<open># Highest bid\<close>) and the search
  on the ask side show that the highest bid is what it means to take.
\<close>

theorem best_bid_is_first_bid_not_highest:
  "best_prices [level (2/5) 10, level (9/20) 5] [level (1/2) 7] = Some (2/5, 10, 1/2, 7)
   \<and> map_of (current_snapshots (process_orderbook_data (init_monitor None) ''tok-1'' ''A vs B - A''
        (demo_book ''tok-1'' [level (2/5) 10, level (9/20) 5] [level (1/2) 7]) 1)) ''tok-1''
       = Some (make_snapshot 1 ''tok-1'' ''A vs B - A'' (2/5, 10, 1/2, 7))
   \<and> best_bid (make_snapshot 1 ''tok-1'' ''A vs B - A'' (2/5, 10, 1/2, 7)) = 2/5
   \<and> level (9/20) 5 \<in> set (bids (demo_book ''tok-1'' [level (2/5) 10, level (9/20) 5] [level (1/2) 7]))
   \<and> (2/5 :: real) < 9/20"
  by (simp add: best_prices_def level_def demo_book_def process_orderbook_data_def
        store_snapshot_current make_snapshot_fields map_of_dict_set)

section \<open>Books with an empty side\<close>

text \<open>
  Claim C10 (empty-side skip). If the bid list or the ask list of an order-book object is
  empty, \<^verbatim>\<open>process_book_message\<close> and \<^verbatim>\<open>process_orderbook_data\<close> return the monitor as it
  was: current snapshots, history, extremes, total records, best matches and the executor
  are all unchanged.
\<close>

theorem empty_side_skip:
  "bids data = [] \<or> asks data = [] \<Longrightarrow>
   process_book_message st data now = st
   \<and> process_orderbook_data st tok mname data now = st"
  by (auto simp: process_book_message_def process_orderbook_data_def Let_def)

theorem empty_side_skip_witness:
  "(bids (demo_book ''tok-1'' [] [level (1/2) 7]) = []
      \<or> asks (demo_book ''tok-1'' [] [level (1/2) 7]) = [])
   \<and> process_book_message (init_monitor None) (demo_book ''tok-1'' [] [level (1/2) 7]) 1
       = init_monitor None
   \<and> process_orderbook_data (init_monitor None) ''tok-1'' ''A vs B - A''
        (demo_book ''tok-1'' [] [level (1/2) 7]) 1 = init_monitor None"
proof -
  have h: "bids (demo_book ''tok-1'' [] [level (1/2) 7]) = []
             \<or> asks (demo_book ''tok-1'' [] [level (1/2) 7]) = []"
    by (simp add: demo_book_def)
  from empty_side_skip[OF h] h show ?thesis by blast
qed

section \<open>Extreme records\<close>

lemma extremes_kept_refl: "extremes_kept st st"
  by (simp add: extremes_kept_def)

lemma extremes_kept_trans [trans]:
  assumes "extremes_kept a b" "extremes_kept b c"
  shows "extremes_kept a c"
  unfolding extremes_kept_def
proof (intro conjI allI impI)
  fix k r assume "ath_records a k = Some r"
  with assms(1) obtain r1 where r1: "ath_records b k = Some r1" "r1 = r \<or> ath_price r < ath_price r1"
    unfolding extremes_kept_def by blast
  with assms(2) obtain r2 where r2: "ath_records c k = Some r2" "r2 = r1 \<or> ath_price r1 < ath_price r2"
    unfolding extremes_kept_def by blast
  from r1(2) r2(2) have "r2 = r \<or> ath_price r < ath_price r2" by auto
  with r2(1) show "\<exists>r'. ath_records c k = Some r' \<and> (r' = r \<or> ath_price r < ath_price r')"
    by blast
next
  fix k l assume "atl_records a k = Some l"
  with assms(1) obtain l1 where l1: "atl_records b k = Some l1" "l1 = l \<or> atl_price l1 < atl_price l"
    unfolding extremes_kept_def by blast
  with assms(2) obtain l2 where l2: "atl_records c k = Some l2" "l2 = l1 \<or> atl_price l2 < atl_price l1"
    unfolding extremes_kept_def by blast
  from l1(2) l2(2) have "l2 = l \<or> atl_price l2 < atl_price l" by auto
  with l2(1) show "\<exists>l'. atl_records c k = Some l' \<and> (l' = l \<or> atl_price l' < atl_price l)"
    by blast
qed

lemma extremes_kept_eq:
  "ath_records st' = ath_records st \<Longrightarrow> atl_records st' = atl_records st \<Longrightarrow> extremes_kept st st'"
  by (simp add: extremes_kept_def)

lemma check_ath_kept: "extremes_kept st (check_ath st m n p s sd now)"
  by (auto simp: extremes_kept_def check_ath_def Let_def split: option.splits)

lemma check_atl_kept: "extremes_kept st (check_atl st m n p s sd now)"
  by (auto simp: extremes_kept_def check_atl_def Let_def split: option.splits)

lemma store_snapshot_kept: "extremes_kept st (store_snapshot st snap now)"
proof -
  let ?tok = "market_id snap" and ?n = "market_name snap"
  let ?st1 = "st\<lparr>current_snapshots := dict_set ?tok snap (current_snapshots st),
                  orderbook_data := (orderbook_data st)
                    (?tok \<mapsto> deque_append MAX_ORDERBOOK_HISTORY (history st ?tok) snap)\<rparr>"
  let ?st2 = "check_ath ?st1 ?tok ?n (best_bid snap) (bid_size snap) ''bid'' now"
  let ?st3 = "check_ath ?st2 ?tok ?n (best_ask snap) (ask_size snap) ''ask'' now"
  let ?st4 = "check_atl ?st3 ?tok ?n (best_bid snap) (bid_size snap) ''bid'' now"
  let ?st5 = "check_atl ?st4 ?tok ?n (best_ask snap) (ask_size snap) ''ask'' now"
  have "extremes_kept st ?st1" by (rule extremes_kept_eq) simp_all
  also have "extremes_kept ?st1 ?st2" by (rule check_ath_kept)
  also have "extremes_kept ?st2 ?st3" by (rule check_ath_kept)
  also have "extremes_kept ?st3 ?st4" by (rule check_atl_kept)
  also have "extremes_kept ?st4 ?st5" by (rule check_atl_kept)
  finally have "extremes_kept st ?st5" by -
  then show ?thesis by (simp add: store_snapshot_def Let_def)
qed


lemma process_orderbook_data_kept: "extremes_kept st (process_orderbook_data st tok mname data now)"
  by (simp add: process_orderbook_data_def extremes_kept_refl store_snapshot_kept
           split: option.splits)

lemma check_best_matches_kept: "extremes_kept st (check_best_matches st now)"
  using check_best_matches_store[of st now]
  by (simp add: same_store_def extremes_kept_eq)

lemma process_book_message_kept: "extremes_kept st (process_book_message st data now)"
proof -
  have "extremes_kept st (check_best_matches (store_snapshot st snap now) now)" for snap
    by (rule extremes_kept_trans[OF store_snapshot_kept check_best_matches_kept])
  then show ?thesis
    by (simp add: process_book_message_def Let_def extremes_kept_refl split: option.splits)
qed

lemma ingest_kept: "extremes_kept st (ingest st ev)"
  by (cases ev) (simp_all add: process_book_message_kept process_orderbook_data_kept)

lemma ingest_all_kept: "extremes_kept st (ingest_all st evs)"
  unfolding ingest_all_def
proof (induction evs arbitrary: st)
  case Nil
  show ?case by (simp add: extremes_kept_refl)
next
  case (Cons ev evs)
  have "extremes_kept st (ingest st ev)" by (rule ingest_kept)
  also have "extremes_kept (ingest st ev) (foldl ingest (ingest st ev) evs)" by (rule Cons.IH)
  finally show ?case by simp
qed

lemma ask_feed_example:
  "ath_records (ingest_all (init_monitor None)
        (ask_feed [(2/5, 1), (19/50, 2), (21/50, 3), (7/20, 4)])) ''tok-1_ask''
     = Some \<lparr>ath_market_id = ''tok-1'', ath_market_name = ''A vs B - A'',
               ath_price = 21/50, ath_size = 5, ath_timestamp = 3, ath_side = ''ask''\<rparr>
   \<and> atl_records (ingest_all (init_monitor None)
        (ask_feed [(2/5, 1), (19/50, 2), (21/50, 3), (7/20, 4)])) ''tok-1_ask''
     = Some \<lparr>atl_market_id = ''tok-1'', atl_market_name = ''A vs B - A'',
               atl_price = 7/20, atl_size = 5, atl_timestamp = 4, atl_side = ''ask''\<rparr>"
  by (simp add: ingest_all_def ask_feed_def init_monitor_def demo_book_def level_def
        process_orderbook_data_def best_prices_def make_snapshot_def store_snapshot_def
        check_ath_def check_atl_def history_def deque_append_def MAX_ORDERBOOK_HISTORY_def
        Let_def)

text \<open>
  Claim C6 (monotone extremes, first occurrence wins). For every key of \<^verbatim>\<open>ath_records\<close> and
  \<^verbatim>\<open>atl_records\<close> and every sequence of ingested events: a recorded all-time high is
  still recorded afterwards, with a price that is not lower, and the record is either the
  very same record or one with a strictly higher price; a recorded all-time low is still
  recorded, with a price that is not higher, and is either the same record or one with a
  strictly lower price. A single \<^verbatim>\<open>check_ath\<close> with a price not above the recorded one
  changes nothing, and with a strictly higher price it installs the new record;
  \<^verbatim>\<open>check_atl\<close> likewise with the order reversed. Feeding the asks \<open>0.40, 0.38, 0.42, 0.35\<close>
  for one instrument at times \<open>1, 2, 3, 4\<close> leaves the high \<open>0.42\<close> set at time \<open>3\<close> and the
  low \<open>0.35\<close> set at time \<open>4\<close>.
\<close>

theorem extremes_monotone:
  "(ath_records st key = Some r \<longrightarrow>
      (\<exists>r'. ath_records (ingest_all st evs) key = Some r'
            \<and> ath_price r \<le> ath_price r' \<and> (r' = r \<or> ath_price r < ath_price r')))
   \<and> (atl_records st key = Some l \<longrightarrow>
      (\<exists>l'. atl_records (ingest_all st evs) key = Some l'
            \<and> atl_price l' \<le> atl_price l \<and> (l' = l \<or> atl_price l' < atl_price l)))
   \<and> (ath_records st (mid @ ''_'' @ side) = Some r \<and> p \<le> ath_price r \<longrightarrow>
        check_ath st mid mname p sz side now = st)
   \<and> (ath_records st (mid @ ''_'' @ side) = Some r \<and> ath_price r < p \<longrightarrow>
        ath_records (check_ath st mid mname p sz side now) (mid @ ''_'' @ side)
          = Some \<lparr>ath_market_id = mid, ath_market_name = mname, ath_price = p,
                    ath_size = sz, ath_timestamp = now, ath_side = side\<rparr>)
   \<and> (atl_records st (mid @ ''_'' @ side) = Some l \<and> atl_price l \<le> p \<longrightarrow>
        check_atl st mid mname p sz side now = st)
   \<and> (atl_records st (mid @ ''_'' @ side) = Some l \<and> p < atl_price l \<longrightarrow>
        atl_records (check_atl st mid mname p sz side now) (mid @ ''_'' @ side)
          = Some \<lparr>atl_market_id = mid, atl_market_name = mname, atl_price = p,
                    atl_size = sz, atl_timestamp = now, atl_side = side\<rparr>)
   \<and> ath_records (ingest_all (init_monitor None)
        (ask_feed [(2/5, 1), (19/50, 2), (21/50, 3), (7/20, 4)])) ''tok-1_ask''
     = Some \<lparr>ath_market_id = ''tok-1'', ath_market_name = ''A vs B - A'',
               ath_price = 21/50, ath_size = 5, ath_timestamp = 3, ath_side = ''ask''\<rparr>
   \<and> atl_records (ingest_all (init_monitor None)
        (ask_feed [(2/5, 1), (19/50, 2), (21/50, 3), (7/20, 4)])) ''tok-1_ask''
     = Some \<lparr>atl_market_id = ''tok-1'', atl_market_name = ''A vs B - A'',
               atl_price = 7/20, atl_size = 5, atl_timestamp = 4, atl_side = ''ask''\<rparr>"
proof -
  note k = ingest_all_kept[of st evs, unfolded extremes_kept_def]
  have a: "ath_records st key = Some r \<longrightarrow>
      (\<exists>r'. ath_records (ingest_all st evs) key = Some r'
            \<and> ath_price r \<le> ath_price r' \<and> (r' = r \<or> ath_price r < ath_price r'))"
  proof
    assume "ath_records st key = Some r"
    with k obtain r' where "ath_records (ingest_all st evs) key = Some r'"
      "r' = r \<or> ath_price r < ath_price r'" by blast
    then show "\<exists>r'. ath_records (ingest_all st evs) key = Some r'
            \<and> ath_price r \<le> ath_price r' \<and> (r' = r \<or> ath_price r < ath_price r')"
      by auto
  qed
  have b: "atl_records st key = Some l \<longrightarrow>
      (\<exists>l'. atl_records (ingest_all st evs) key = Some l'
            \<and> atl_price l' \<le> atl_price l \<and> (l' = l \<or> atl_price l' < atl_price l))"
  proof
    assume "atl_records st key = Some l"
    with k obtain l' where "atl_records (ingest_all st evs) key = Some l'"
      "l' = l \<or> atl_price l' < atl_price l" by blast
    then show "\<exists>l'. atl_records (ingest_all st evs) key = Some l'
            \<and> atl_price l' \<le> atl_price l \<and> (l' = l \<or> atl_price l' < atl_price l)"
      by auto
  qed
  have c: "ath_records st (mid @ ''_'' @ side) = Some r \<and> p \<le> ath_price r \<longrightarrow>
        check_ath st mid mname p sz side now = st"
    by (simp add: check_ath_def Let_def)
  have d: "ath_records st (mid @ ''_'' @ side) = Some r \<and> ath_price r < p \<longrightarrow>
        ath_records (check_ath st mid mname p sz side now) (mid @ ''_'' @ side)
          = Some \<lparr>ath_market_id = mid, ath_market_name = mname, ath_price = p,
                    ath_size = sz, ath_timestamp = now, ath_side = side\<rparr>"
    by (simp add: check_ath_def Let_def)
  have e: "atl_records st (mid @ ''_'' @ side) = Some l \<and> atl_price l \<le> p \<longrightarrow>
        check_atl st mid mname p sz side now = st"
    by (simp add: check_atl_def Let_def)
  have f: "atl_records st (mid @ ''_'' @ side) = Some l \<and> p < atl_price l \<longrightarrow>
        atl_records (check_atl st mid mname p sz side now) (mid @ ''_'' @ side)
          = Some \<lparr>atl_market_id = mid, atl_market_name = mname, atl_price = p,
                    atl_size = sz, atl_timestamp = now, atl_side = side\<rparr>"
    by (simp add: check_atl_def Let_def)
  from a b c d e f ask_feed_example show ?thesis by (intro conjI) simp_all
qed

theorem extremes_monotone_witness:
  "ath_records (ingest_all (init_monitor None) (ask_feed [(2/5, 1)])) ''tok-1_ask''
     = Some \<lparr>ath_market_id = ''tok-1'', ath_market_name = ''A vs B - A'',
               ath_price = 2/5, ath_size = 5, ath_timestamp = 1, ath_side = ''ask''\<rparr>
   \<and> (\<exists>r'. ath_records (ingest_all (ingest_all (init_monitor None) (ask_feed [(2/5, 1)]))
                 (ask_feed [(19/50, 2), (21/50, 3), (7/20, 4)])) ''tok-1_ask'' = Some r'
           \<and> 2/5 \<le> ath_price r')
   \<and> (\<exists>l'. atl_records (ingest_all (ingest_all (init_monitor None) (ask_feed [(2/5, 1)]))
                 (ask_feed [(19/50, 2), (21/50, 3), (7/20, 4)])) ''tok-1_ask'' = Some l'
           \<and> atl_price l' \<le> 2/5)
   \<and> check_ath (ingest_all (init_monitor None) (ask_feed [(2/5, 1)]))
        ''tok-1'' ''A vs B - A'' (2/5) 8 ''ask'' 2
       = ingest_all (init_monitor None) (ask_feed [(2/5, 1)])
   \<and> check_atl (ingest_all (init_monitor None) (ask_feed [(2/5, 1)]))
        ''tok-1'' ''A vs B - A'' (2/5) 8 ''ask'' 2
       = ingest_all (init_monitor None) (ask_feed [(2/5, 1)])"
proof -
  let ?st = "ingest_all (init_monitor None) (ask_feed [(2/5, 1)])"
  let ?r = "\<lparr>ath_market_id = ''tok-1'', ath_market_name = ''A vs B - A'',
               ath_price = 2/5, ath_size = 5, ath_timestamp = 1, ath_side = ''ask''\<rparr>"
  let ?l = "\<lparr>atl_market_id = ''tok-1'', atl_market_name = ''A vs B - A'',
               atl_price = 2/5, atl_size = 5, atl_timestamp = 1, atl_side = ''ask''\<rparr>"
  have h: "ath_records ?st ''tok-1_ask'' = Some ?r" "atl_records ?st ''tok-1_ask'' = Some ?l"
    by (simp_all add: ingest_all_def ask_feed_def init_monitor_def demo_book_def level_def
        process_orderbook_data_def best_prices_def make_snapshot_def store_snapshot_def
        check_ath_def check_atl_def history_def deque_append_def MAX_ORDERBOOK_HISTORY_def
        Let_def)
  have k: "''tok-1'' @ ''_'' @ ''ask'' = ''tok-1_ask''" by simp
  note T = extremes_monotone[where st = ?st and key = "''tok-1_ask''" and r = ?r and l = ?l
             and evs = "ask_feed [(19/50, 2), (21/50, 3), (7/20, 4)]"
             and mid = "''tok-1''" and side = "''ask''" and p = "2/5" and mname = "''A vs B - A''"
             and sz = 8 and now = 2, unfolded k]
  from T h have
    "\<exists>r'. ath_records (ingest_all ?st (ask_feed [(19/50, 2), (21/50, 3), (7/20, 4)])) ''tok-1_ask''
            = Some r' \<and> ath_price ?r \<le> ath_price r'"
    "\<exists>l'. atl_records (ingest_all ?st (ask_feed [(19/50, 2), (21/50, 3), (7/20, 4)])) ''tok-1_ask''
            = Some l' \<and> atl_price l' \<le> atl_price ?l"
    "check_ath ?st ''tok-1'' ''A vs B - A'' (2/5) 8 ''ask'' 2 = ?st"
    "check_atl ?st ''tok-1'' ''A vs B - A'' (2/5) 8 ''ask'' 2 = ?st"
    by auto
  with h(1) show ?thesis by simp
qed

section \<open>The history of an instrument\<close>

lemma deque_append_lastn: "deque_append n (lastn n xs) x = lastn n (xs @ [x])"
proof (cases "length xs < n")
  case True
  then show ?thesis by (simp add: deque_append_def lastn_def Let_def)
next
  case False
  show ?thesis
  proof (cases "n = 0")
    case True
    then show ?thesis by (simp add: deque_append_def lastn_def Let_def)
  next
    case n: False
    let ?d = "length xs - n"
    have d: "Suc ?d \<le> length xs" "Suc (length xs) - n = Suc ?d"
      using False n by simp_all
    have ne: "drop ?d xs \<noteq> []" using d(1) by simp
    have "deque_append n (lastn n xs) x = tl (drop ?d xs @ [x])"
      using False by (simp add: deque_append_def lastn_def Let_def)
    also have "\<dots> = tl (drop ?d xs) @ [x]" using ne by simp
    also have "\<dots> = drop (Suc ?d) xs @ [x]" by (simp add: tl_drop drop_Suc)
    also have "\<dots> = lastn n (xs @ [x])"
      using d by (simp add: lastn_def)
    finally show ?thesis .
  qed
qed

lemma check_ath_data: "orderbook_data (check_ath st m n p s sd now) = orderbook_data st"
  "token_to_market (check_ath st m n p s sd now) = token_to_market st"
  by (simp_all add: check_ath_def Let_def split: option.splits)

lemma check_atl_data: "orderbook_data (check_atl st m n p s sd now) = orderbook_data st"
  "token_to_market (check_atl st m n p s sd now) = token_to_market st"
  by (simp_all add: check_atl_def Let_def split: option.splits)

lemma store_snapshot_history:
  "history (store_snapshot st snap now) tok =
     (if market_id snap = tok then deque_append MAX_ORDERBOOK_HISTORY (history st tok) snap
      else history st tok)"
  "token_to_market (store_snapshot st snap now) = token_to_market st"
  by (simp_all add: store_snapshot_def Let_def history_def check_ath_data check_atl_data)

lemma check_best_matches_history:
  "history (check_best_matches st now) tok = history st tok"
  "token_to_market (check_best_matches st now) = token_to_market st"
  using check_best_matches_store[of st now] by (simp_all add: same_store_def history_def)

lemma ingest_history:
  "history (ingest st ev) tok =
     (case produced_snapshot (token_to_market st) ev of
        None \<Rightarrow> history st tok
      | Some s \<Rightarrow> if market_id s = tok
                  then deque_append MAX_ORDERBOOK_HISTORY (history st tok) s
                  else history st tok)"
  "token_to_market (ingest st ev) = token_to_market st"
  by (cases ev;
      simp add: process_book_message_def process_orderbook_data_def Let_def
        store_snapshot_history check_best_matches_history split: option.splits)+

lemma ingest_all_history:
  "history st tok = lastn MAX_ORDERBOOK_HISTORY h0 \<Longrightarrow>
   history (ingest_all st evs) tok
     = lastn MAX_ORDERBOOK_HISTORY (h0 @ arrivals (token_to_market st) tok evs)"
  unfolding ingest_all_def
proof (induction evs arbitrary: st h0)
  case Nil
  then show ?case by simp
next
  case (Cons ev evs)
  let ?t = "token_to_market st"
  show ?case
  proof (cases "produced_snapshot ?t ev")
    case None
    then have "history (ingest st ev) tok = lastn MAX_ORDERBOOK_HISTORY h0"
      using Cons.prems by (simp add: ingest_history)
    from Cons.IH[OF this] None show ?thesis by (simp add: ingest_history)
  next
    case (Some s)
    show ?thesis
    proof (cases "market_id s = tok")
      case True
      then have "history (ingest st ev) tok = lastn MAX_ORDERBOOK_HISTORY (h0 @ [s])"
        using Cons.prems Some by (simp add: ingest_history deque_append_lastn)
      from Cons.IH[OF this] Some True show ?thesis by (simp add: ingest_history)
    next
      case False
      then have "history (ingest st ev) tok = lastn MAX_ORDERBOOK_HISTORY h0"
        using Cons.prems Some by (simp add: ingest_history)
      from Cons.IH[OF this] Some False show ?thesis by (simp add: ingest_history)
    qed
  qed
qed

lemma lastn_all: "length xs \<le> n \<Longrightarrow> lastn n xs = xs"
  by (simp add: lastn_def)

lemma arrivals_replicate:
  "produced_snapshot t2m ev = Some s \<Longrightarrow> market_id s = tok \<Longrightarrow>
   arrivals t2m tok (replicate n ev) = replicate n s"
  by (induction n) simp_all

text \<open>
  Claim C7 (history ring buffer). For every instrument and every sequence of events
  ingested by a fresh monitor, the history of the instrument has at most
  \<^verbatim>\<open>MAX_ORDERBOOK_HISTORY\<close> entries and consists of the last \<^verbatim>\<open>MAX_ORDERBOOK_HISTORY\<close>
  snapshots recorded for it, in arrival order; after \<open>capacity + k\<close> snapshots its length
  is the capacity and the \<open>k\<close> oldest are gone. From any state whose history respects the
  bound, the bound keeps holding and the history is the last \<^verbatim>\<open>MAX_ORDERBOOK_HISTORY\<close>
  entries of the old history followed by the new arrivals.
\<close>

theorem history_ring_buffer:
  "length (history (ingest_all (init_monitor ex) evs) tok) \<le> MAX_ORDERBOOK_HISTORY
   \<and> history (ingest_all (init_monitor ex) evs) tok
       = drop (length (arrivals Map.empty tok evs) - MAX_ORDERBOOK_HISTORY)
           (arrivals Map.empty tok evs)
   \<and> (length (arrivals Map.empty tok evs) = MAX_ORDERBOOK_HISTORY + k \<longrightarrow>
        length (history (ingest_all (init_monitor ex) evs) tok) = MAX_ORDERBOOK_HISTORY
        \<and> history (ingest_all (init_monitor ex) evs) tok = drop k (arrivals Map.empty tok evs))
   \<and> (length (history st tok) \<le> MAX_ORDERBOOK_HISTORY \<longrightarrow>
        length (history (ingest_all st evs) tok) \<le> MAX_ORDERBOOK_HISTORY
        \<and> history (ingest_all st evs) tok
            = drop (length (history st tok @ arrivals (token_to_market st) tok evs)
                       - MAX_ORDERBOOK_HISTORY)
                (history st tok @ arrivals (token_to_market st) tok evs))"
proof -
  let ?M = MAX_ORDERBOOK_HISTORY
  let ?a = "arrivals Map.empty tok evs"
  let ?h = "history (ingest_all (init_monitor ex) evs) tok"
  have i: "history (init_monitor ex) tok = lastn ?M []"
    by (simp add: history_def init_monitor_def lastn_def)
  have t: "token_to_market (init_monitor ex) = Map.empty"
    by (simp add: init_monitor_def)
  have h: "?h = drop (length ?a - ?M) ?a"
    using ingest_all_history[OF i, of evs] by (simp add: t lastn_def)
  then have le: "length ?h \<le> ?M" by simp
  have k: "length ?a = ?M + k \<longrightarrow> length ?h = ?M \<and> ?h = drop k ?a"
    using h by simp
  have g: "length (history st tok) \<le> ?M \<longrightarrow>
        length (history (ingest_all st evs) tok) \<le> ?M
        \<and> history (ingest_all st evs) tok
            = drop (length (history st tok @ arrivals (token_to_market st) tok evs) - ?M)
                (history st tok @ arrivals (token_to_market st) tok evs)"
  proof
    assume "length (history st tok) \<le> ?M"
    then have "history st tok = lastn ?M (history st tok)" by (simp add: lastn_all)
    from ingest_all_history[OF this, of evs]
    have e: "history (ingest_all st evs) tok
            = drop (length (history st tok @ arrivals (token_to_market st) tok evs) - ?M)
                (history st tok @ arrivals (token_to_market st) tok evs)"
      by (simp only: lastn_def)
    have "length (history (ingest_all st evs) tok) \<le> ?M"
      by (subst e) simp
    with e show "length (history (ingest_all st evs) tok) \<le> ?M
        \<and> history (ingest_all st evs) tok
            = drop (length (history st tok @ arrivals (token_to_market st) tok evs) - ?M)
                (history st tok @ arrivals (token_to_market st) tok evs)"
      by (rule conjI[rotated])
  qed
  from le h k g show ?thesis by (intro conjI)
qed

theorem history_ring_buffer_witness:
  "length (arrivals Map.empty ''tok-1''
      (RestData ''tok-1'' ''A vs B - A'' (demo_book ''tok-1'' [level (3/10) 10] [level (2/5) 5]) 1
       # replicate 1000
           (RestData ''tok-1'' ''A vs B - A''
              (demo_book ''tok-1'' [level (3/10) 10] [level (1/2) 5]) 2)))
     = MAX_ORDERBOOK_HISTORY + 1
   \<and> length (history (ingest_all (init_monitor None)
      (RestData ''tok-1'' ''A vs B - A'' (demo_book ''tok-1'' [level (3/10) 10] [level (2/5) 5]) 1
       # replicate 1000
           (RestData ''tok-1'' ''A vs B - A''
              (demo_book ''tok-1'' [level (3/10) 10] [level (1/2) 5]) 2))) ''tok-1'')
     = MAX_ORDERBOOK_HISTORY
   \<and> history (ingest_all (init_monitor None)
      (RestData ''tok-1'' ''A vs B - A'' (demo_book ''tok-1'' [level (3/10) 10] [level (2/5) 5]) 1
       # replicate 1000
           (RestData ''tok-1'' ''A vs B - A''
              (demo_book ''tok-1'' [level (3/10) 10] [level (1/2) 5]) 2))) ''tok-1''
     = replicate 1000 (make_snapshot 2 ''tok-1'' ''A vs B - A'' (3/10, 10, 1/2, 5))
   \<and> length (history (init_monitor None) ''tok-1'') \<le> MAX_ORDERBOOK_HISTORY"
proof -
  let ?e1 = "RestData ''tok-1'' ''A vs B - A''
               (demo_book ''tok-1'' [level (3/10) 10] [level (2/5) 5]) 1"
  let ?e2 = "RestData ''tok-1'' ''A vs B - A''
               (demo_book ''tok-1'' [level (3/10) 10] [level (1/2) 5]) 2"
  let ?s1 = "make_snapshot 1 ''tok-1'' ''A vs B - A'' (3/10, 10, 2/5, 5)"
  let ?s2 = "make_snapshot 2 ''tok-1'' ''A vs B - A'' (3/10, 10, 1/2, 5)"
  have p1: "produced_snapshot Map.empty ?e1 = Some ?s1"
    by (simp add: demo_book_def level_def best_prices_def)
  have p2: "produced_snapshot Map.empty ?e2 = Some ?s2"
    by (simp add: demo_book_def level_def best_prices_def)
  have m: "market_id ?s1 = ''tok-1''" "market_id ?s2 = ''tok-1''"
    by (simp_all add: make_snapshot_def)
  have a: "arrivals Map.empty ''tok-1'' (?e1 # replicate 1000 ?e2) = ?s1 # replicate 1000 ?s2"
    using p1 m(1) arrivals_replicate[OF p2 m(2)] by simp
  have len: "length (arrivals Map.empty ''tok-1'' (?e1 # replicate 1000 ?e2))
               = MAX_ORDERBOOK_HISTORY + 1"
    unfolding a by (simp add: MAX_ORDERBOOK_HISTORY_def)
  have h0: "length (history (init_monitor None) ''tok-1'') \<le> MAX_ORDERBOOK_HISTORY"
    by (simp add: history_def init_monitor_def)
  note T = history_ring_buffer[where ex = None and evs = "?e1 # replicate 1000 ?e2"
             and tok = "''tok-1''" and k = 1 and st = "init_monitor None"]
  from T len have
    "length (history (ingest_all (init_monitor None) (?e1 # replicate 1000 ?e2)) ''tok-1'')
       = MAX_ORDERBOOK_HISTORY"
    "history (ingest_all (init_monitor None) (?e1 # replicate 1000 ?e2)) ''tok-1''
       = drop 1 (arrivals Map.empty ''tok-1'' (?e1 # replicate 1000 ?e2))"
    by blast+
  then show ?thesis using len h0 unfolding a by simp
qed

section \<open>The detection pass as one loop\<close>









lemma gate_flag_update [simp]:
  "gate_flag (st\<lparr>total_records := tr\<rparr>) = gate_flag st"
  "gate_flag (st\<lparr>last_totals := lt\<rparr>) = gate_flag st"
  "gate_flag (st\<lparr>best_matches := bm\<rparr>) = gate_flag st"
  by (simp_all add: gate_flag_def)









section \<open>The groups of a scan have distinct keys\<close>











section \<open>Total records\<close>









end
